theory Spec2Isabelle
  imports Main
begin

section \<open>JavaScript values used by the voice server\<close>

text \<open>
  Strings of the program are HOL strings; \<open>length\<close> is the \<open>.length\<close> of the
  source. A value that may be \<open>undefined\<close> is an option, and the truthiness test the
  source applies to such a string (\<open>!x\<close>, \<open>x || d\<close>) is \<open>truthy\<close>: \<open>undefined\<close>
  and the empty string are falsy.
\<close>

definition truthy :: "string option \<Rightarrow> bool" where
  "truthy v = (case v of None \<Rightarrow> False | Some s \<Rightarrow> s \<noteq> [])"

datatype json =
    JNull
  | JBool bool
  | JNum int
  | JStr string
  | JArr "json list"
  | JObj "(string \<times> json) list"

text \<open>Decimal rendering of a non-negative integer, as a template literal prints it.\<close>

definition digit :: "nat \<Rightarrow> char" where
  "digit d = ''0123456789abcdef'' ! (d mod 16)"

fun string_of_nat :: "nat \<Rightarrow> string" where
  "string_of_nat n =
     (if n < 10 then [digit n]
      else string_of_nat (n div 10) @ [digit (n mod 10)])"

declare string_of_nat.simps [simp del]

definition string_of_int :: "int \<Rightarrow> string" where
  "string_of_int i = (if i < 0 then CHR ''-'' # string_of_nat (nat (- i)) else string_of_nat (nat i))"

text \<open>
  \<open>JSON.stringify\<close> on the objects the program builds: members in insertion order, no
  white space, strings quoted with the escapes of the JSON grammar.
\<close>

definition escape_char :: "char \<Rightarrow> string" where
  "escape_char c =
     (if c = CHR 0x22 then [CHR 0x5C, CHR 0x22]
      else if c = CHR 0x5C then [CHR 0x5C, CHR 0x5C]
      else if c = CHR 0x08 then [CHR 0x5C, CHR ''b'']
      else if c = CHR 0x0C then [CHR 0x5C, CHR ''f'']
      else if c = CHR 0x0A then [CHR 0x5C, CHR ''n'']
      else if c = CHR 0x0D then [CHR 0x5C, CHR ''r'']
      else if c = CHR 0x09 then [CHR 0x5C, CHR ''t'']
      else if (of_char c :: nat) < 32
        then [CHR 0x5C, CHR ''u'', CHR ''0'', CHR ''0'',
              digit ((of_char c :: nat) div 16), digit ((of_char c :: nat) mod 16)]
      else [c])"

definition quote :: "string \<Rightarrow> string" where
  "quote s = CHR 0x22 # concat (map escape_char s) @ [CHR 0x22]"

fun intersperse :: "string \<Rightarrow> string list \<Rightarrow> string" where
  "intersperse sep [] = []"
| "intersperse sep [x] = x"
| "intersperse sep (x # y # ys) = x @ sep @ intersperse sep (y # ys)"

fun JSON_stringify :: "json \<Rightarrow> string" where
  "JSON_stringify JNull = ''null''"
| "JSON_stringify (JBool b) = (if b then ''true'' else ''false'')"
| "JSON_stringify (JNum i) = string_of_int i"
| "JSON_stringify (JStr s) = quote s"
| "JSON_stringify (JArr xs) = ''['' @ intersperse '','' (map JSON_stringify xs) @ '']''"
| "JSON_stringify (JObj kvs) =
     ''{'' @ intersperse '','' (map (\<lambda>(k, v). quote k @ '':'' @ JSON_stringify v) kvs) @ ''}''"


section \<open>user-auth.ts: the caller's authorization context\<close>

record liked_tweet =
  author_username :: string
  author_name :: string

text \<open>
  \<open>UserAuth\<close>: the optional fields are options. The fields \<open>following\<close> and
  \<open>seeded_at\<close>, and \<open>id\<close> and \<open>text\<close> of a liked tweet, are never read by the server
  and are left out.
\<close>

record UserAuth =
  authenticated :: bool
  access_token :: "string option"
  x_user_id :: "string option"
  x_username :: "string option"
  x_name :: "string option"
  liked_tweets :: "liked_tweet list option"

record UserContext =
  phoneNumber :: string
  auth :: UserAuth

text \<open>The answer of an HTTP request to the backend: no answer, a non-2xx status, or a body.\<close>

datatype 'a http = Failed | NotOk nat | Ok 'a

definition unauthenticated :: UserAuth where
  "unauthenticated =
     \<lparr>authenticated = False, access_token = None, x_user_id = None, x_username = None,
      x_name = None, liked_tweets = None\<rparr>"

definition getUserAuth :: "(string \<Rightarrow> UserAuth http) \<Rightarrow> string \<Rightarrow> UserAuth" where
  "getUserAuth fetch_token phone =
     (case fetch_token phone of
        Failed \<Rightarrow> unauthenticated
      | NotOk status \<Rightarrow> unauthenticated
      | Ok data \<Rightarrow> data)"

type_synonym contexts = "string \<rightharpoonup> UserContext"

definition initUserContext ::
  "(string \<Rightarrow> UserAuth http) \<Rightarrow> contexts \<Rightarrow> string \<Rightarrow> string \<Rightarrow> contexts \<times> UserContext" where
  "initUserContext fetch_token activeCallContexts callId phone =
     (let context = \<lparr>phoneNumber = phone, auth = getUserAuth fetch_token phone\<rparr>
      in (activeCallContexts(callId \<mapsto> context), context))"

definition getCallContext :: "contexts \<Rightarrow> string \<Rightarrow> UserContext option" where
  "getCallContext activeCallContexts callId = activeCallContexts callId"

definition cleanupCallContext :: "contexts \<Rightarrow> string \<Rightarrow> contexts" where
  "cleanupCallContext activeCallContexts callId = activeCallContexts(callId := None)"

section \<open>tools.ts: the tool dispatcher\<close>

text \<open>
  The argument object of a tool call, as the interfaces \<open>SearchNewsTopicArgs\<close> ...
  \<open>PostTweetArgs\<close> type it: an object whose declared fields are strings. A field that
  is absent reads as \<open>undefined\<close>, which is what the cast \<open>args as PostTweetArgs\<close>
  yields on the object \<open>{}\<close>. The source's field \<open>text\<close> is \<open>text_arg\<close> here.
  Properties that no interface declares are kept in \<open>others\<close>; no handler reads them.
  Argument text that parses to something else than such an object (\<open>null\<close>, a number,
  a declared field that holds a non-string) is outside these types and outside the model.
\<close>

record ToolCallArgs =
  topic :: "string option"
  country :: "string option"
  username :: "string option"
  recipient_username :: "string option"
  message :: "string option"
  text_arg :: "string option"
  others :: "(string \<times> json) list"

definition emptyArgs :: ToolCallArgs where
  "emptyArgs =
     \<lparr>topic = None, country = None, username = None, recipient_username = None,
      message = None, text_arg = None, others = []\<rparr>"

text \<open>
  What an awaited call yields: a value, or a thrown error. \<open>error_text\<close> is the text
  a template literal prints for the error; the wording of the \<open>TypeError\<close> is the one of
  Node's engine.
\<close>

datatype js_error = TypeError_undefined string | ProviderError string

definition error_text :: "js_error \<Rightarrow> string" where
  "error_text e =
     (case e of
        TypeError_undefined p \<Rightarrow>
          ''TypeError: Cannot read properties of undefined (reading '' @ [CHR 0x27] @ p @ [CHR 0x27] @ '')''
      | ProviderError m \<Rightarrow> m)"

datatype 'a outcome = Returned 'a | Threw js_error

record xuser =
  user_id :: string
  user_username :: string

text \<open>
  The operations of \<open>x-api.ts\<close> reach the provider over HTTP; they are parameters of the
  model, and every invocation is recorded as a \<open>provider_call\<close>.
\<close>

record providers =
  searchNewsTopic :: "string option \<Rightarrow> string outcome"
  getTrendingNews :: "string \<Rightarrow> string outcome"
  getUserPosts :: "string option \<Rightarrow> string outcome"
  getMyFollowing :: "string \<Rightarrow> string option \<Rightarrow> string outcome"
  lookupUserByUsername :: "string \<Rightarrow> string option \<Rightarrow> xuser option outcome"
  sendDM :: "string \<Rightarrow> string \<Rightarrow> string option \<Rightarrow> string outcome"
  postTweet :: "string \<Rightarrow> string \<Rightarrow> string outcome"

datatype provider_call =
    Call_searchNewsTopic "string option"
  | Call_getTrendingNews string
  | Call_getUserPosts "string option"
  | Call_getMyFollowing string "string option"
  | Call_lookupUserByUsername string "string option"
  | Call_sendDM string string "string option"
  | Call_postTweet string string

text \<open>
  The guard of the three user-context handlers,
  \<open>!userContext?.auth.authenticated || !userContext.auth.access_token\<close>: \<open>linked\<close>
  is \<open>None\<close> where the guard fires, and the access token with the \<open>auth\<close> record where
  it does not.
\<close>

definition linked :: "UserContext option \<Rightarrow> (string \<times> UserAuth) option" where
  "linked userContext =
     (case userContext of
        None \<Rightarrow> None
      | Some c \<Rightarrow>
          (if \<not> authenticated (auth c) then None
           else case access_token (auth c) of
                  None \<Rightarrow> None
                | Some tok \<Rightarrow> if tok = [] then None else Some (tok, auth c)))"

definition connect_first :: string where
  "connect_first =
     ''You need to connect your X account first. Visit our website to log in with X, then call back.''"

definition or_default :: "string option \<Rightarrow> string \<Rightarrow> string" where
  "or_default v d = (case v of None \<Rightarrow> d | Some s \<Rightarrow> if s = [] then d else s)"

definition template :: "string option \<Rightarrow> string" where
  "template v = (case v of None \<Rightarrow> ''undefined'' | Some s \<Rightarrow> s)"

definition handleGetMyFollowing ::
  "providers \<Rightarrow> UserContext option \<Rightarrow> string outcome \<times> provider_call list" where
  "handleGetMyFollowing api userContext =
     (case linked userContext of
        None \<Rightarrow>
          (Returned (JSON_stringify (JObj
             [(''success'', JBool False), (''message'', JStr connect_first), (''users'', JArr [])])), [])
      | Some (tok, a) \<Rightarrow>
          (getMyFollowing api tok (x_user_id a), [Call_getMyFollowing tok (x_user_id a)]))"

definition handleSendDM ::
  "providers \<Rightarrow> UserContext option \<Rightarrow> ToolCallArgs \<Rightarrow> string outcome \<times> provider_call list" where
  "handleSendDM api userContext args =
     (case linked userContext of
        None \<Rightarrow>
          (Returned (JSON_stringify (JObj
             [(''success'', JBool False), (''message'', JStr connect_first)])), [])
      | Some (tok, a) \<Rightarrow>
          (case lookupUserByUsername api tok (recipient_username args) of
             Threw e \<Rightarrow> (Threw e, [Call_lookupUserByUsername tok (recipient_username args)])
           | Returned None \<Rightarrow>
               (Returned (JSON_stringify (JObj
                  [(''success'', JBool False),
                   (''message'', JStr (''Could not find user @'' @ template (recipient_username args)
                      @ ''. Please check the username and try again.''))])),
                [Call_lookupUserByUsername tok (recipient_username args)])
           | Returned (Some recipient) \<Rightarrow>
               (sendDM api tok (user_id recipient) (message args),
                [Call_lookupUserByUsername tok (recipient_username args),
                 Call_sendDM tok (user_id recipient) (message args)])))"

definition handlePostTweet ::
  "providers \<Rightarrow> UserContext option \<Rightarrow> ToolCallArgs \<Rightarrow> string outcome \<times> provider_call list" where
  "handlePostTweet api userContext args =
     (case linked userContext of
        None \<Rightarrow>
          (Returned (JSON_stringify (JObj
             [(''success'', JBool False), (''message'', JStr connect_first)])), [])
      | Some (tok, a) \<Rightarrow>
          (case text_arg args of
             None \<Rightarrow> (Threw (TypeError_undefined ''length''), [])
           | Some t \<Rightarrow>
               (if length t > 280 then
                  (Returned (JSON_stringify (JObj
                     [(''success'', JBool False),
                      (''message'', JStr (''Your tweet is '' @ string_of_nat (length t)
                         @ '' characters, but the maximum is 280. Please shorten it.''))])), [])
                else (postTweet api tok t, [Call_postTweet tok t]))))"

text \<open>
  \<open>executeToolCall\<close>: the \<open>switch\<close> on the tool name inside \<open>try\<close>, and the \<open>catch\<close>
  that turns a thrown error into a payload. The result is the string handed back to the
  caller, with the provider calls made on the way. The tool name arrives from the wire, so
  it is any string.
\<close>

definition executeToolCall ::
  "providers \<Rightarrow> contexts \<Rightarrow> string \<Rightarrow> string \<Rightarrow> ToolCallArgs \<Rightarrow> string \<times> provider_call list" where
  "executeToolCall api activeCallContexts callId toolName args =
     (let userContext = getCallContext activeCallContexts callId;
          (result, calls) =
            (if toolName = ''search_news_topic'' then
               (searchNewsTopic api (topic args), [Call_searchNewsTopic (topic args)])
             else if toolName = ''get_trending_news'' then
               (getTrendingNews api (or_default (country args) ''US''),
                [Call_getTrendingNews (or_default (country args) ''US'')])
             else if toolName = ''get_user_posts'' then
               (getUserPosts api (username args), [Call_getUserPosts (username args)])
             else if toolName = ''get_my_following'' then handleGetMyFollowing api userContext
             else if toolName = ''send_dm'' then handleSendDM api userContext args
             else if toolName = ''post_tweet'' then handlePostTweet api userContext args
             else (Returned (JSON_stringify (JObj
                     [(''error'', JStr (''Unknown tool: '' @ toolName))])), []))
      in case result of
           Returned r \<Rightarrow> (r, calls)
         | Threw e \<Rightarrow>
             (JSON_stringify (JObj
                [(''success'', JBool False),
                 (''error'', JStr (''Tool execution failed: '' @ error_text e))]), calls))"

definition recognized :: "string \<Rightarrow> bool" where
  "recognized toolName \<longleftrightarrow>
     toolName \<in> set [''search_news_topic'', ''get_trending_news'', ''get_user_posts'',
                     ''get_my_following'', ''send_dm'', ''post_tweet'']"

definition requires_authorization :: "string \<Rightarrow> bool" where
  "requires_authorization toolName \<longleftrightarrow>
     toolName \<in> set [''get_my_following'', ''send_dm'', ''post_tweet'']"

text \<open>A caller identity that is absent, or present but not authenticated.\<close>

definition identity_missing :: "UserContext option \<Rightarrow> bool" where
  "identity_missing userContext =
     (case userContext of None \<Rightarrow> True | Some c \<Rightarrow> \<not> authenticated (auth c))"


section \<open>index.ts: the call session\<close>

subsection \<open>Messages, traces and the environment\<close>

text \<open>
  A message of the x.ai socket, decoded by its \<open>type\<close> field. Fields the handler reads
  may be absent. \<open>Other\<close> is a message whose type the handler does not name.
\<close>

datatype xai_message =
    OutputAudioDelta "string option"
  | OutputAudioTranscriptDelta "string option"
  | ResponseCreated
  | FunctionCallArgumentsDelta "string option"
  | FunctionCallArgumentsDone "string option" "string option"
  | ResponseDone
  | SessionUpdated
  | ConversationCreated
  | SpeechStarted
  | SpeechStopped
  | AudioBufferCommitted
  | InputAudioTranscriptionCompleted "string option"
  | Ping
  | ErrorMessage
  | ConversationItemAdded
  | OutputItemAdded
  | OutputItemDone
  | ContentPartAdded
  | ContentPartDone
  | OutputAudioDone
  | OutputAudioTranscriptDone
  | Other string

fun type_of :: "xai_message \<Rightarrow> string" where
  "type_of (OutputAudioDelta d) = ''response.output_audio.delta''"
| "type_of (OutputAudioTranscriptDelta d) = ''response.output_audio_transcript.delta''"
| "type_of ResponseCreated = ''response.created''"
| "type_of (FunctionCallArgumentsDelta d) = ''response.function_call_arguments.delta''"
| "type_of (FunctionCallArgumentsDone c n) = ''response.function_call_arguments.done''"
| "type_of ResponseDone = ''response.done''"
| "type_of SessionUpdated = ''session.updated''"
| "type_of ConversationCreated = ''conversation.created''"
| "type_of SpeechStarted = ''input_audio_buffer.speech_started''"
| "type_of SpeechStopped = ''input_audio_buffer.speech_stopped''"
| "type_of AudioBufferCommitted = ''input_audio_buffer.committed''"
| "type_of (InputAudioTranscriptionCompleted t) =
     ''conversation.item.input_audio_transcription.completed''"
| "type_of Ping = ''ping''"
| "type_of ErrorMessage = ''error''"
| "type_of ConversationItemAdded = ''conversation.item.added''"
| "type_of OutputItemAdded = ''response.output_item.added''"
| "type_of OutputItemDone = ''response.output_item.done''"
| "type_of ContentPartAdded = ''response.content_part.added''"
| "type_of ContentPartDone = ''response.content_part.done''"
| "type_of OutputAudioDone = ''response.output_audio.done''"
| "type_of OutputAudioTranscriptDone = ''response.output_audio_transcript.done''"
| "type_of (Other t) = t"

datatype track = Inbound | Outbound

datatype readyState = CONNECTING | OPEN | CLOSING | CLOSED

datatype timeOfDay = Morning | Afternoon | Evening

text \<open>
  The prompt of the opening turn, by its parts: the time of day and, for an authenticated
  caller, the display name and the authors taken from the liked tweets.
\<close>

datatype greetingPrompt =
    GreetByName timeOfDay "string option" "string list"
  | GreetCaller timeOfDay

text \<open>What is handed to \<open>xaiWs.send\<close>, before \<open>JSON.stringify\<close>.\<close>

datatype xai_out =
    SessionUpdate
  | ConversationItemCreate greetingPrompt
  | ResponseCreate
  | FunctionCallOutput "string option" string
  | InputAudioBufferAppend string

text \<open>What is handed to \<open>tw.send\<close>: a media frame (payload, streamSid) or a clear command.\<close>

datatype twilio_out = Media string string | Clear "string option"

text \<open>
  The log trace records the warnings and errors of the handlers, and the two notices
  about traffic that is dropped or not recognised; the notices of normal progress
  (\<open>log.app.info\<close> of a step that went through) and the lines of \<open>tools.ts\<close> are not
  recorded.
\<close>

datatype log_line =
    Info_waiting_for_session_updated
  | Warn_streamSid_not_set
  | Error_xai_not_connected
  | Error_failed_to_parse_args string
  | Error_xai_api
  | Error_processing_message
  | Debug_unknown string
  | Error_xai_connect
  | Error_xai_socket
  | Error_xai_closed
  | Error_twilio_socket

datatype role = User | Assistant

datatype backend_call =
    SendTranscriptMessage string role string
  | EndConversation string

text \<open>
  The world outside the process: the tool providers, the backend's answers, the clock,
  and \<open>JSON.parse\<close> on the accumulated arguments (\<open>None\<close> where it throws).
\<close>

record env =
  api :: providers
  fetch_token :: "string \<Rightarrow> UserAuth http"
  post_conversation :: "string \<Rightarrow> string \<Rightarrow> string http"
  JSON_parse :: "string \<Rightarrow> ToolCallArgs option"
  getHours :: nat

definition createConversation :: "env \<Rightarrow> string \<Rightarrow> string \<Rightarrow> string option" where
  "createConversation e phone cid =
     (case post_conversation e phone cid of
        Failed \<Rightarrow> None
      | NotOk status \<Rightarrow> None
      | Ok conversation \<Rightarrow> Some conversation)"

subsection \<open>The state of one call\<close>

text \<open>
  The four process-wide maps, then the variables of the closure of the
  \<open>/media-stream/:callId\<close> handler, the timers and promises it has started, the state of
  the two sockets, and the traces of what it has sent, logged and requested.
  \<open>fc_callId\<close>, \<open>fc_name\<close> and \<open>fc_arguments\<close> are the fields of
  \<open>functionCallState\<close>; \<open>streamSid\<close> is \<open>tw.streamSid\<close>.
\<close>

datatype phase = Connecting | Active | Aborted

record bridge =
  callPhoneNumbers :: "string \<rightharpoonup> string"
  callConversationIds :: "string \<rightharpoonup> string"
  botTranscriptBuffers :: "string \<rightharpoonup> string"
  activeCallContexts :: contexts
  callId :: string
  phase :: phase
  streamSid :: "string option"
  twilioReady :: bool
  pendingTwilioReady :: bool
  userContext :: "UserContext option"
  fc_callId :: "string option"
  fc_name :: "string option"
  fc_arguments :: string
  sessionReady :: bool
  greetingSent :: bool
  audioPacketCount :: nat
  pollIntervals :: "nat list"
  nextTimer :: nat
  pendingTools :: "string list"
  closing :: nat
  xaiReadyState :: readyState
  twilioOpen :: bool
  xaiSent :: "xai_out list"
  twilioSent :: "twilio_out list"
  logs :: "log_line list"
  backendCalls :: "backend_call list"
  providerCalls :: "provider_call list"
  dispatched :: "(string \<times> ToolCallArgs) list"


subsection \<open>Sending and logging\<close>

definition log :: "log_line \<Rightarrow> bridge \<Rightarrow> bridge" where
  "log l s = s\<lparr>logs := logs s @ [l]\<rparr>"

text \<open>\<open>xaiSent\<close> lists what has been handed to \<open>xaiWs.send\<close>, in order.\<close>

definition xai_send :: "xai_out \<Rightarrow> bridge \<Rightarrow> bridge" where
  "xai_send m s = s\<lparr>xaiSent := xaiSent s @ [m]\<rparr>"

text \<open>
  Modelled from the spec: \<open>twilio.ts\<close> (the class \<open>TwilioMediaStreamWebsocket\<close>) is not
  among the sources. It is the telephony adapter of the spec, "a thin typed-event wrapper"
  with \<open>send(message)\<close> and no buffering: \<open>tw.send\<close> hands the message to the telephony
  socket, and \<open>tw.streamSid\<close> is unset until the handler of \<open>start\<close> assigns it.
\<close>

definition tw_send :: "twilio_out \<Rightarrow> bridge \<Rightarrow> bridge" where
  "tw_send m s = s\<lparr>twilioSent := twilioSent s @ [m]\<rparr>"

definition backend :: "backend_call \<Rightarrow> bridge \<Rightarrow> bridge" where
  "backend c s = s\<lparr>backendCalls := backendCalls s @ [c]\<rparr>"

subsection \<open>The opening turn\<close>

definition timeOfDay_at :: "nat \<Rightarrow> timeOfDay" where
  "timeOfDay_at hour = (if hour < 12 then Morning else if hour < 17 then Afternoon else Evening)"

definition authorLabel :: "liked_tweet \<Rightarrow> string" where
  "authorLabel t =
     (let name = (if author_name t \<noteq> [] then author_name t else author_username t);
          username = author_username t
      in if name \<noteq> [] \<and> username \<noteq> [] \<and> name \<noteq> username
         then name @ '' (@'' @ username @ '')''
         else if username \<noteq> [] then username else name)"

text \<open>A \<open>Set\<close> keeps the first occurrence of each element, in insertion order.\<close>

definition likedAuthors :: "liked_tweet list \<Rightarrow> string list" where
  "likedAuthors ts =
     take 3 (rev (remdups (rev (filter (\<lambda>a. a \<noteq> []) (map authorLabel ts)))))"

definition greeting :: "env \<Rightarrow> UserContext option \<Rightarrow> greetingPrompt" where
  "greeting e uc =
     (case uc of
        None \<Rightarrow> GreetCaller (timeOfDay_at (getHours e))
      | Some c \<Rightarrow>
          (if authenticated (auth c) then
             GreetByName (timeOfDay_at (getHours e)) (x_name (auth c))
               (case liked_tweets (auth c) of None \<Rightarrow> [] | Some ts \<Rightarrow> likedAuthors ts)
           else GreetCaller (timeOfDay_at (getHours e))))"

definition trySendGreeting :: "env \<Rightarrow> bridge \<Rightarrow> bridge" where
  "trySendGreeting e s =
     (if greetingSent s \<or> \<not> sessionReady s \<or> \<not> truthy (streamSid s) then s
      else xai_send ResponseCreate
             (xai_send (ConversationItemCreate (greeting e (userContext s)))
                (s\<lparr>greetingSent := True\<rparr>)))"

subsection \<open>Connection set-up\<close>

text \<open>
  \<open>twiml\<close> is the webhook that admits a call; \<open>media_stream\<close> is the state of the
  \<open>/media-stream/:callId\<close> handler once the caller has been looked up and the conversation
  created, while the x.ai socket is connecting. Only the handler of \<open>start\<close> is registered
  in that phase.
\<close>

definition twiml :: "(string \<rightharpoonup> string) \<Rightarrow> string \<Rightarrow> string \<Rightarrow> (string \<rightharpoonup> string)" where
  "twiml phones cid from = phones(cid \<mapsto> from)"

definition media_stream ::
  "env \<Rightarrow> (string \<rightharpoonup> string) \<Rightarrow> (string \<rightharpoonup> string) \<Rightarrow> (string \<rightharpoonup> string) \<Rightarrow> contexts
     \<Rightarrow> string \<Rightarrow> bridge" where
  "media_stream e phones convs buffers ctxs cid =
     (let phoneNumber = (if truthy (phones cid) then phones cid else None);
          looked_up = map_option (initUserContext (fetch_token e) ctxs cid) phoneNumber;
          conversationId =
            (case phoneNumber of None \<Rightarrow> None | Some p \<Rightarrow> createConversation e p cid)
      in \<lparr>callPhoneNumbers = phones,
          callConversationIds =
            (case conversationId of
               None \<Rightarrow> convs
             | Some c \<Rightarrow> if c = [] then convs else convs(cid \<mapsto> c)),
          botTranscriptBuffers = buffers,
          activeCallContexts = (case looked_up of None \<Rightarrow> ctxs | Some (m, c) \<Rightarrow> m),
          callId = cid,
          phase = Connecting,
          streamSid = None,
          twilioReady = False,
          pendingTwilioReady = False,
          userContext = map_option snd looked_up,
          fc_callId = None,
          fc_name = None,
          fc_arguments = [],
          sessionReady = False,
          greetingSent = False,
          audioPacketCount = 0,
          pollIntervals = [],
          nextTimer = 0,
          pendingTools = [],
          closing = 0,
          xaiReadyState = CONNECTING,
          twilioOpen = True,
          xaiSent = [],
          twilioSent = [],
          logs = [],
          backendCalls = [],
          providerCalls = [],
          dispatched = []\<rparr>)"

definition on_start :: "string \<Rightarrow> bridge \<Rightarrow> bridge" where
  "on_start sid s = s\<lparr>streamSid := Some sid, twilioReady := True, pendingTwilioReady := True\<rparr>"

text \<open>
  When the x.ai socket has opened, the handler declares \<open>functionCallState\<close>,
  \<open>sessionReady\<close>, \<open>greetingSent\<close> and \<open>audioPacketCount\<close> (they hold their initial
  values since \<open>media_stream\<close>), checks \<open>pendingTwilioReady\<close>, and registers the
  remaining handlers.
\<close>

definition on_xai_open :: "env \<Rightarrow> bridge \<Rightarrow> bridge" where
  "on_xai_open e s =
     (let s1 = s\<lparr>phase := Active, xaiReadyState := OPEN\<rparr>
      in if pendingTwilioReady s1 then trySendGreeting e s1 else s1)"

subsection \<open>Messages from x.ai\<close>

definition whitespace :: "char \<Rightarrow> bool" where
  "whitespace c \<longleftrightarrow> c \<in> set [CHR 0x09, CHR 0x0A, CHR 0x0B, CHR 0x0C, CHR 0x0D, CHR 0x20, CHR 0xA0]"

definition trim_empty :: "string \<Rightarrow> bool" where
  "trim_empty t = list_all whitespace t"

definition dispatch :: "env \<Rightarrow> string \<Rightarrow> bridge \<Rightarrow> bridge" where
  "dispatch e toolName s =
     (let parsed = JSON_parse e (if fc_arguments s = [] then ''{}'' else fc_arguments s);
          args = (case parsed of None \<Rightarrow> emptyArgs | Some a \<Rightarrow> a);
          s1 = (case parsed of
                  None \<Rightarrow> log (Error_failed_to_parse_args (fc_arguments s)) s
                | Some a \<Rightarrow> s);
          executed = executeToolCall (api e) (activeCallContexts s1) (callId s1) toolName args
      in s1\<lparr>pendingTools := pendingTools s1 @ [fst executed],
            providerCalls := providerCalls s1 @ snd executed,
            dispatched := dispatched s1 @ [(toolName, args)]\<rparr>)"

text \<open>
  The second \<open>if\<close> chain of the handler. It starts with a plain \<open>if\<close> after the first chain,
  so a message the first chain has handled reaches its final \<open>else\<close> too.
\<close>

fun second_chain :: "xai_message \<Rightarrow> bridge \<Rightarrow> bridge" where
  "second_chain Ping s = s"
| "second_chain ErrorMessage s = log Error_xai_api s"
| "second_chain ConversationItemAdded s = s"
| "second_chain OutputItemAdded s = s"
| "second_chain OutputItemDone s = s"
| "second_chain ContentPartAdded s = s"
| "second_chain ContentPartDone s = s"
| "second_chain OutputAudioDone s = s"
| "second_chain OutputAudioTranscriptDone s =
     (let fullTranscript = or_default (botTranscriptBuffers s (callId s)) [];
          s1 = (case callConversationIds s (callId s) of
                  None \<Rightarrow> s
                | Some conversationId \<Rightarrow>
                    if conversationId \<noteq> [] \<and> \<not> trim_empty fullTranscript
                    then backend (SendTranscriptMessage conversationId Assistant fullTranscript) s
                    else s)
      in s1\<lparr>botTranscriptBuffers := (botTranscriptBuffers s1)(callId s1 := None)\<rparr>)"
| "second_chain m s = log (Debug_unknown (type_of m)) s"

fun on_message :: "env \<Rightarrow> xai_message \<Rightarrow> bridge \<Rightarrow> bridge" where
  "on_message e (OutputAudioDelta d) s =
     (case d of
        None \<Rightarrow> second_chain (OutputAudioDelta d) s
      | Some delta \<Rightarrow>
          if delta = [] then second_chain (OutputAudioDelta d) s
          else (case streamSid s of
                  None \<Rightarrow> log Warn_streamSid_not_set s
                | Some sid \<Rightarrow>
                    if sid = [] then log Warn_streamSid_not_set s
                    else second_chain (OutputAudioDelta d) (tw_send (Media delta sid) s)))"
| "on_message e (OutputAudioTranscriptDelta d) s =
     second_chain (OutputAudioTranscriptDelta d)
       (s\<lparr>botTranscriptBuffers := (botTranscriptBuffers s)
            (callId s \<mapsto> or_default (botTranscriptBuffers s (callId s)) [] @ or_default d [])\<rparr>)"
| "on_message e (FunctionCallArgumentsDelta d) s =
     second_chain (FunctionCallArgumentsDelta d)
       (s\<lparr>fc_arguments := fc_arguments s @ or_default d []\<rparr>)"
| "on_message e (FunctionCallArgumentsDone call_id name) s =
     second_chain (FunctionCallArgumentsDone call_id name)
       (s\<lparr>fc_callId := call_id, fc_name := name\<rparr>)"
| "on_message e ResponseDone s =
     second_chain ResponseDone
       (case fc_name s of
          None \<Rightarrow> s
        | Some toolName \<Rightarrow>
            if toolName \<noteq> [] \<and> truthy (fc_callId s) then dispatch e toolName s else s)"
| "on_message e SessionUpdated s =
     second_chain SessionUpdated
       (let s1 = trySendGreeting e (s\<lparr>sessionReady := True\<rparr>)
        in if \<not> greetingSent s1
           then s1\<lparr>pollIntervals := pollIntervals s1 @ [nextTimer s1],
                   nextTimer := Suc (nextTimer s1)\<rparr>
           else s1)"
| "on_message e ConversationCreated s =
     second_chain ConversationCreated (xai_send SessionUpdate s)"
| "on_message e SpeechStarted s =
     second_chain SpeechStarted (tw_send (Clear (streamSid s)) s)"
| "on_message e (InputAudioTranscriptionCompleted t) s =
     second_chain (InputAudioTranscriptionCompleted t)
       (let transcript = or_default t []
        in case callConversationIds s (callId s) of
             None \<Rightarrow> s
           | Some conversationId \<Rightarrow>
               if conversationId \<noteq> [] \<and> \<not> trim_empty transcript
               then backend (SendTranscriptMessage conversationId User transcript) s
               else s)"
| "on_message e m s = second_chain m s"

subsection \<open>Audio from Twilio, timers, promises and socket events\<close>

definition on_media :: "track \<Rightarrow> string \<Rightarrow> bridge \<Rightarrow> bridge" where
  "on_media tr payload s =
     (let s1 = s\<lparr>audioPacketCount := Suc (audioPacketCount s)\<rparr>
      in if tr = Inbound then
           (if \<not> sessionReady s1 then
              (if audioPacketCount s1 = 1 then log Info_waiting_for_session_updated s1 else s1)
            else if xaiReadyState s1 \<noteq> OPEN then log Error_xai_not_connected s1
            else xai_send (InputAudioBufferAppend payload) s1)
         else s1)"

definition on_poll :: "env \<Rightarrow> nat \<Rightarrow> bridge \<Rightarrow> bridge" where
  "on_poll e i s =
     (if i \<in> set (pollIntervals s) \<and> truthy (streamSid s)
      then trySendGreeting e (s\<lparr>pollIntervals := removeAll i (pollIntervals s)\<rparr>)
      else s)"

definition on_poll_timeout :: "nat \<Rightarrow> bridge \<Rightarrow> bridge" where
  "on_poll_timeout i s = s\<lparr>pollIntervals := removeAll i (pollIntervals s)\<rparr>"

text \<open>
  The \<open>then\<close> callback of a dispatched tool call, run when its promise settles.
  \<open>executeToolCall\<close> catches every error itself, so the promise never rejects and the
  \<open>catch\<close> callback of the handler is not reached.
\<close>

definition on_settled :: "nat \<Rightarrow> bridge \<Rightarrow> bridge" where
  "on_settled i s =
     (if i < length (pendingTools s) then
        (xai_send ResponseCreate
           (xai_send (FunctionCallOutput (fc_callId s) (pendingTools s ! i))
              (s\<lparr>pendingTools := take i (pendingTools s) @ drop (Suc i) (pendingTools s)\<rparr>)))
        \<lparr>fc_callId := None, fc_name := None, fc_arguments := []\<rparr>
      else s)"

definition xai_close :: "bridge \<Rightarrow> bridge" where
  "xai_close s = (if xaiReadyState s = OPEN then s\<lparr>xaiReadyState := CLOSING\<rparr> else s)"

definition cleanup :: "bridge \<Rightarrow> bridge" where
  "cleanup s =
     s\<lparr>activeCallContexts := cleanupCallContext (activeCallContexts s) (callId s),
       callPhoneNumbers := (callPhoneNumbers s)(callId s := None),
       callConversationIds := (callConversationIds s)(callId s := None),
       botTranscriptBuffers := (botTranscriptBuffers s)(callId s := None)\<rparr>"

text \<open>
  The handler of the Twilio socket's \<open>close\<close>. It awaits \<open>endConversation\<close> when the call
  has a conversation; the clean-up then runs when that request has returned.
\<close>

definition on_twilio_close :: "bridge \<Rightarrow> bridge" where
  "on_twilio_close s =
     (let s1 = xai_close s
      in case callConversationIds s1 (callId s1) of
           None \<Rightarrow> cleanup s1
         | Some conversationId \<Rightarrow>
             if conversationId = [] then cleanup s1
             else (backend (EndConversation conversationId) s1)\<lparr>closing := Suc (closing s1)\<rparr>)"

definition on_end_conversation_settled :: "bridge \<Rightarrow> bridge" where
  "on_end_conversation_settled s =
     (if closing s = 0 then s else cleanup (s\<lparr>closing := closing s - 1\<rparr>))"

subsection \<open>The events of a call and its runs\<close>

text \<open>
  What can happen to a call: the events of the Twilio wrapper (\<open>start\<close> with its
  \<open>streamSid\<close>, \<open>media\<close> with its track and payload) and of its socket, the events
  of the x.ai socket (\<open>XaiData\<close> is a message that parses, \<open>XaiUnparsable\<close> one on
  which the handler throws), a tick or the time-out of the poll with the given timer
  id, the settling of the pending tool call at the given position, and the return of the
  end-of-conversation request. Events are handled one at a time, in the order of the list;
  the model puts no bound on the time between them.
\<close>

datatype event =
    TwilioStart string
  | TwilioMedia track string
  | TwilioError
  | TwilioClose
  | XaiOpen
  | XaiConnectTimeout
  | XaiData xai_message
  | XaiUnparsable
  | XaiError
  | XaiClose
  | PollTick nat
  | PollTimeout nat
  | ToolSettled nat
  | EndConversationSettled

text \<open>
  While the x.ai socket is connecting, \<open>start\<close> has a handler on the Twilio side, and
  the x.ai socket has the handlers of \<open>open\<close> and \<open>error\<close> that the connecting promise
  registers. An \<open>error\<close> is logged and rejects the promise; the time-out calls
  \<open>xaiWs.close()\<close> and rejects it. The handler of the route then throws and registers
  nothing more, but the \<open>error\<close> handler of the connecting promise stays registered: the
  \<open>error\<close> that the socket emits after being closed while connecting arrives as
  \<open>XaiError\<close> on the aborted call and is logged. A socket emits \<open>close\<close> once.
\<close>

fun connecting_step :: "env \<Rightarrow> event \<Rightarrow> bridge \<Rightarrow> bridge" where
  "connecting_step e (TwilioStart sid) s = on_start sid s"
| "connecting_step e TwilioClose s = s\<lparr>twilioOpen := False\<rparr>"
| "connecting_step e XaiOpen s = on_xai_open e s"
| "connecting_step e XaiError s =
     (log Error_xai_connect s)\<lparr>phase := Aborted, xaiReadyState := CLOSING\<rparr>"
| "connecting_step e XaiConnectTimeout s = s\<lparr>phase := Aborted, xaiReadyState := CLOSING\<rparr>"
| "connecting_step e XaiClose s = s\<lparr>xaiReadyState := CLOSED\<rparr>"
| "connecting_step e ev s = s"

fun aborted_step :: "event \<Rightarrow> bridge \<Rightarrow> bridge" where
  "aborted_step (TwilioStart sid) s = on_start sid s"
| "aborted_step TwilioClose s = s\<lparr>twilioOpen := False\<rparr>"
| "aborted_step XaiError s = log Error_xai_connect s"
| "aborted_step XaiClose s = s\<lparr>xaiReadyState := CLOSED\<rparr>"
| "aborted_step ev s = s"

fun active_step :: "env \<Rightarrow> event \<Rightarrow> bridge \<Rightarrow> bridge" where
  "active_step e (TwilioStart sid) s = on_start sid s"
| "active_step e (TwilioMedia tr payload) s = on_media tr payload s"
| "active_step e TwilioError s = log Error_twilio_socket s"
| "active_step e TwilioClose s =
     (if twilioOpen s then on_twilio_close (s\<lparr>twilioOpen := False\<rparr>) else s)"
| "active_step e (XaiData m) s = on_message e m s"
| "active_step e XaiUnparsable s = log Error_processing_message s"
| "active_step e XaiError s = log Error_xai_socket (log Error_xai_connect s)"
| "active_step e XaiClose s = log Error_xai_closed (s\<lparr>xaiReadyState := CLOSED\<rparr>)"
| "active_step e (PollTick i) s = on_poll e i s"
| "active_step e (PollTimeout i) s = on_poll_timeout i s"
| "active_step e (ToolSettled i) s = on_settled i s"
| "active_step e EndConversationSettled s = on_end_conversation_settled s"
| "active_step e ev s = s"

definition step :: "env \<Rightarrow> bridge \<Rightarrow> event \<Rightarrow> bridge" where
  "step e s ev =
     (case phase s of
        Connecting \<Rightarrow> connecting_step e ev s
      | Active \<Rightarrow> active_step e ev s
      | Aborted \<Rightarrow> aborted_step ev s)"

definition run :: "env \<Rightarrow> bridge \<Rightarrow> event list \<Rightarrow> bridge" where
  "run e s evs = foldl (step e) s evs"


subsection \<open>Reading the traces\<close>

fun is_greeting :: "xai_out \<Rightarrow> bool" where
  "is_greeting (ConversationItemCreate g) = True"
| "is_greeting m = False"

definition greetings :: "xai_out list \<Rightarrow> nat" where
  "greetings ms = length (filter is_greeting ms)"

text \<open>
  The opening turns in what has been sent: the places where a greeting item is directly
  followed by \<open>response.create\<close>.
\<close>

fun opening_turns :: "xai_out list \<Rightarrow> nat" where
  "opening_turns [] = 0"
| "opening_turns [m] = 0"
| "opening_turns (a # b # ms) =
     (if is_greeting a \<and> b = ResponseCreate then Suc (opening_turns ms)
      else opening_turns (b # ms))"

definition ends_with_greeting :: "xai_out list \<Rightarrow> bool" where
  "ends_with_greeting ms \<longleftrightarrow> ms \<noteq> [] \<and> is_greeting (last ms)"

fun is_append :: "xai_out \<Rightarrow> bool" where
  "is_append (InputAudioBufferAppend a) = True"
| "is_append m = False"

definition forwarded_audio :: "xai_out list \<Rightarrow> xai_out list" where
  "forwarded_audio ms = filter is_append ms"

fun is_media :: "twilio_out \<Rightarrow> bool" where
  "is_media (Media payload sid) = True"
| "is_media m = False"

definition media_frames :: "twilio_out list \<Rightarrow> twilio_out list" where
  "media_frames ms = filter is_media ms"

text \<open>A frame handed to Twilio is addressed when its \<open>streamSid\<close> is not empty.\<close>

fun addressed :: "twilio_out \<Rightarrow> bool" where
  "addressed (Media payload sid) = (sid \<noteq> [])"
| "addressed (Clear sid) = True"

definition waiting_notices :: "log_line list \<Rightarrow> nat" where
  "waiting_notices ls = length (filter (\<lambda>l. l = Info_waiting_for_session_updated) ls)"

fun is_start :: "event \<Rightarrow> bool" where
  "is_start (TwilioStart sid) = True"
| "is_start ev = False"

text \<open>What a run hands to \<open>tw.send\<close>, beyond what had been handed over before it.\<close>

definition sent_to_twilio :: "env \<Rightarrow> bridge \<Rightarrow> event list \<Rightarrow> twilio_out list" where
  "sent_to_twilio e s evs = drop (length (twilioSent s)) (twilioSent (run e s evs))"




subsection \<open>Invariants of a call\<close>

text \<open>
  The greeting flag counts the greetings sent, and each greeting sent is directly followed
  by its \<open>response.create\<close>; no audio has been forwarded to x.ai while
  the session is not ready; the notice about waiting for \<open>session.updated\<close> has been
  logged at most once, and not at all before the first media event; and as long as the
  stream has not started, no media frame has been handed to Twilio.
\<close>

definition greeting_inv :: "bridge \<Rightarrow> bool" where
  "greeting_inv s \<longleftrightarrow> greetings (xaiSent s) = (if greetingSent s then 1 else 0)"

definition paired_inv :: "bridge \<Rightarrow> bool" where
  "paired_inv s \<longleftrightarrow>
     opening_turns (xaiSent s) = greetings (xaiSent s) \<and> \<not> ends_with_greeting (xaiSent s)"

definition audio_inv :: "bridge \<Rightarrow> bool" where
  "audio_inv s \<longleftrightarrow> sessionReady s \<or> forwarded_audio (xaiSent s) = []"

definition notice_inv :: "bridge \<Rightarrow> bool" where
  "notice_inv s \<longleftrightarrow> waiting_notices (logs s) \<le> (if audioPacketCount s = 0 then 0 else 1)"

definition unaddressed_inv :: "bridge \<Rightarrow> bool" where
  "unaddressed_inv s \<longleftrightarrow> streamSid s = None \<and> media_frames (twilioSent s) = []"

definition addressed_inv :: "bridge \<Rightarrow> bool" where
  "addressed_inv s \<longleftrightarrow> list_all addressed (twilioSent s)"

section \<open>Concrete calls\<close>

definition demo_api :: providers where
  "demo_api =
     \<lparr>searchNewsTopic = (\<lambda>t. Returned ''news''),
      getTrendingNews = (\<lambda>c. Returned ''trends''),
      getUserPosts = (\<lambda>u. Returned ''posts''),
      getMyFollowing = (\<lambda>tok u. Returned ''following''),
      lookupUserByUsername = (\<lambda>tok u. Returned None),
      sendDM = (\<lambda>tok i m. Returned ''sent''),
      postTweet = (\<lambda>tok t. Returned ''posted'')\<rparr>"

definition demo_auth :: UserAuth where
  "demo_auth =
     \<lparr>authenticated = True, access_token = Some ''token'', x_user_id = Some ''42'',
      x_username = Some ''ada'', x_name = Some ''Ada'', liked_tweets = None\<rparr>"

definition demo_contexts :: contexts where
  "demo_contexts = [''call_1'' \<mapsto> \<lparr>phoneNumber = ''+15550100'', auth = demo_auth\<rparr>]"

definition demo_env :: env where
  \<open>demo_env =
     \<lparr>api = demo_api,
      fetch_token = (\<lambda>phone. Ok demo_auth),
      post_conversation = (\<lambda>phone cid. Ok ''conv_1''),
      JSON_parse = (\<lambda>text. if text = ''{}'' then Some emptyArgs
                            else if text = ''{"a":1}'' then Some (emptyArgs\<lparr>others := [(''a'', JNum 1)]\<rparr>)
                            else None),
      getHours = 9\<rparr>\<close>

text \<open>A call admitted by \<open>twiml\<close> whose media stream has just connected.\<close>

definition demo_call :: bridge where
  "demo_call =
     media_stream demo_env (twiml Map.empty ''call_1'' ''+15550100'') Map.empty Map.empty Map.empty
       ''call_1''"



section \<open>Properties of the tool dispatcher\<close>

text \<open>
  C7. When the caller identity of the call is absent or not authenticated, each of the
  tools that require authorization (\<open>get_my_following\<close>, \<open>send_dm\<close>, \<open>post_tweet\<close>)
  returns a structured result with \<open>success: false\<close> and the message that tells the
  caller to link the account on the website, and no provider operation is called.
\<close>

theorem unauthenticated_tools_refused:
  "identity_missing (getCallContext ctxs cid) \<Longrightarrow> requires_authorization toolName \<Longrightarrow>
   executeToolCall a ctxs cid toolName args =
     (JSON_stringify (JObj ([(''success'', JBool False), (''message'', JStr connect_first)]
        @ (if toolName = ''get_my_following'' then [(''users'', JArr [])] else []))), [])"
  by (auto simp: executeToolCall_def requires_authorization_def identity_missing_def linked_def
      handleGetMyFollowing_def handleSendDM_def handlePostTweet_def split: option.splits)

theorem unauthenticated_tools_refused_witness:
  \<open>identity_missing (getCallContext Map.empty ''call_1'') \<and> requires_authorization ''send_dm'' \<and>
   executeToolCall demo_api Map.empty ''call_1'' ''send_dm'' emptyArgs =
     (''{"success":false,"message":"You need to connect your X account first. Visit our website to log in with X, then call back."}'', [])\<close>
  using unauthenticated_tools_refused [of Map.empty "''call_1''" "''send_dm''" demo_api emptyArgs]
  by (simp add: identity_missing_def getCallContext_def requires_authorization_def
      connect_first_def quote_def escape_char_def)

text \<open>
  C8, as the code has it. A tool name outside the six recognized ones does not raise: the
  dispatcher returns the structured payload \<open>{"error": "Unknown tool: <name>"}\<close>, which
  has no \<open>success\<close> field, and calls no provider.
\<close>

theorem unknown_tool_payload:
  "\<not> recognized toolName \<Longrightarrow>
   executeToolCall a ctxs cid toolName args =
     (JSON_stringify (JObj [(''error'', JStr (''Unknown tool: '' @ toolName))]), [])"
  by (simp add: executeToolCall_def recognized_def)

theorem unknown_tool_payload_witness:
  \<open>\<not> recognized ''foo'' \<and>
   executeToolCall demo_api Map.empty ''call_1'' ''foo'' emptyArgs =
     (''{"error":"Unknown tool: foo"}'', [])\<close>
  using unknown_tool_payload [of "''foo''" demo_api Map.empty "''call_1''" emptyArgs]
  by (simp add: recognized_def quote_def escape_char_def)

text \<open>
  C8, as the claim states it, fails: for the unknown tool \<open>foo\<close> the payload is
  \<open>{"error":"Unknown tool: foo"}\<close>, not \<open>{"success":false,"error":"unknown tool"}\<close>.
\<close>

theorem unknown_tool_counterexample:
  \<open>executeToolCall demo_api Map.empty ''call_1'' ''foo'' emptyArgs =
     (''{"error":"Unknown tool: foo"}'', []) \<and>
   fst (executeToolCall demo_api Map.empty ''call_1'' ''foo'' emptyArgs) \<noteq>
     JSON_stringify (JObj [(''success'', JBool False), (''error'', JStr ''unknown tool'')])\<close>
  by (simp add: executeToolCall_def quote_def escape_char_def)

text \<open>
  C10. For a caller identity that is authenticated and holds an access token, a tweet text
  of more than 280 characters makes \<open>post_tweet\<close> return a structured \<open>success: false\<close>
  result that states the length of the text and the maximum of 280, with no provider call;
  and whenever \<open>post_tweet\<close> does call the provider, it is the single call \<open>postTweet\<close>
  with a text of at most 280 characters.
\<close>

theorem long_tweet_refused:
  assumes "getCallContext ctxs cid = Some c" and "authenticated (auth c)"
    and "access_token (auth c) = Some tok" and "tok \<noteq> []"
  shows "(text_arg args = Some t \<and> 280 < length t \<longrightarrow>
            executeToolCall a ctxs cid ''post_tweet'' args =
              (JSON_stringify (JObj
                 [(''success'', JBool False),
                  (''message'', JStr (''Your tweet is '' @ string_of_nat (length t)
                     @ '' characters, but the maximum is 280. Please shorten it.''))]), [])) \<and>
         (snd (executeToolCall a ctxs cid ''post_tweet'' args) \<noteq> [] \<longrightarrow>
            (\<exists>t'. text_arg args = Some t' \<and> length t' \<le> 280 \<and>
               snd (executeToolCall a ctxs cid ''post_tweet'' args) = [Call_postTweet tok t']))"
  using assms
  by (auto simp: executeToolCall_def linked_def handlePostTweet_def
      split: option.splits outcome.splits)

theorem long_tweet_refused_witness:
  \<open>getCallContext demo_contexts ''call_1'' = Some \<lparr>phoneNumber = ''+15550100'', auth = demo_auth\<rparr> \<and>
   authenticated demo_auth \<and> access_token demo_auth = Some ''token'' \<and>
   executeToolCall demo_api demo_contexts ''call_1'' ''post_tweet''
       (emptyArgs\<lparr>text_arg := Some (replicate 281 CHR ''a'')\<rparr>) =
     (''{"success":false,"message":"Your tweet is 281 characters, but the maximum is 280. Please shorten it."}'', []) \<and>
   executeToolCall demo_api demo_contexts ''call_1'' ''post_tweet''
       (emptyArgs\<lparr>text_arg := Some (replicate 280 CHR ''a'')\<rparr>) =
     (''posted'', [Call_postTweet ''token'' (replicate 280 CHR ''a'')])\<close>
  using
    long_tweet_refused [of demo_contexts "''call_1''"
      "\<lparr>phoneNumber = ''+15550100'', auth = demo_auth\<rparr>" "''token''"
      "emptyArgs\<lparr>text_arg := Some (replicate 281 CHR ''a'')\<rparr>" "replicate 281 CHR ''a''" demo_api]
    long_tweet_refused [of demo_contexts "''call_1''"
      "\<lparr>phoneNumber = ''+15550100'', auth = demo_auth\<rparr>" "''token''"
      "emptyArgs\<lparr>text_arg := Some (replicate 280 CHR ''a'')\<rparr>" "replicate 280 CHR ''a''" demo_api]
  by (simp add: getCallContext_def demo_contexts_def demo_auth_def demo_api_def
      executeToolCall_def handlePostTweet_def linked_def
      quote_def escape_char_def string_of_nat.simps digit_def)

section \<open>Properties of the call session\<close>

subsection \<open>Runs and their invariants\<close>

lemmas handlers =
  step_def on_start_def on_xai_open_def on_media_def on_poll_def on_poll_timeout_def
  on_settled_def xai_close_def cleanup_def on_twilio_close_def on_end_conversation_settled_def
  trySendGreeting_def dispatch_def log_def xai_send_def tw_send_def backend_def

text \<open>Unfolding the concrete call.\<close>

lemmas demo_defs =
  demo_call_def media_stream_def demo_env_def demo_api_def twiml_def
  truthy_def Let_def initUserContext_def getUserAuth_def createConversation_def greeting_def
  demo_auth_def timeOfDay_at_def

lemma run_Nil [simp]: "run e s [] = s"
  by (simp add: run_def)

lemma run_Cons [simp]: "run e s (ev # evs) = run e (step e s ev) evs"
  by (simp add: run_def)

lemma run_append: "run e s (xs @ ys) = run e (run e s xs) ys"
  by (simp add: run_def)

subsubsection \<open>The second chain only logs, flushes the transcript and clears its buffer\<close>

lemma second_chain_frame [simp]:
  "xaiSent (second_chain m s) = xaiSent s"
  "twilioSent (second_chain m s) = twilioSent s"
  "greetingSent (second_chain m s) = greetingSent s"
  "sessionReady (second_chain m s) = sessionReady s"
  "streamSid (second_chain m s) = streamSid s"
  "phase (second_chain m s) = phase s"
  "audioPacketCount (second_chain m s) = audioPacketCount s"
  "fc_arguments (second_chain m s) = fc_arguments s"
  "fc_name (second_chain m s) = fc_name s"
  "fc_callId (second_chain m s) = fc_callId s"
  "dispatched (second_chain m s) = dispatched s"
  "pendingTools (second_chain m s) = pendingTools s"
  "pollIntervals (second_chain m s) = pollIntervals s"
  "waiting_notices (logs (second_chain m s)) = waiting_notices (logs s)"
  by (cases m; simp add: handlers waiting_notices_def Let_def split: option.splits)+

subsubsection \<open>An active call stays active\<close>

lemma on_message_phase [simp]: "phase (on_message e m s) = phase s"
  by (cases m) (simp_all add: handlers Let_def split: option.splits)

lemma step_active: "phase s = Active \<Longrightarrow> phase (step e s ev) = Active"
  by (cases ev) (simp_all add: handlers Let_def split: option.splits)

lemma run_active: "phase s = Active \<Longrightarrow> phase (run e s evs) = Active"
  by (induction evs arbitrary: s) (simp_all add: step_active)

subsection \<open>The opening turn\<close>

lemma on_message_greeting: "greeting_inv s \<Longrightarrow> greeting_inv (on_message e m s)"
  by (cases m) (auto simp: greeting_inv_def greetings_def handlers Let_def split: option.splits)

lemma connecting_step_greeting: "greeting_inv s \<Longrightarrow> greeting_inv (connecting_step e ev s)"
  by (cases ev) (auto simp: greeting_inv_def greetings_def handlers Let_def)

lemma aborted_step_greeting: "greeting_inv s \<Longrightarrow> greeting_inv (aborted_step ev s)"
  by (cases ev) (auto simp: greeting_inv_def greetings_def handlers Let_def)

lemma active_step_greeting: "greeting_inv s \<Longrightarrow> greeting_inv (active_step e ev s)"
  by (cases ev)
     (simp_all add: on_message_greeting,
      auto simp: greeting_inv_def greetings_def handlers Let_def split: option.splits)

lemma step_greeting: "greeting_inv s \<Longrightarrow> greeting_inv (step e s ev)"
  by (cases "phase s")
     (simp_all add: step_def connecting_step_greeting active_step_greeting aborted_step_greeting)

lemma run_greeting: "greeting_inv s \<Longrightarrow> greeting_inv (run e s evs)"
  by (induction evs arbitrary: s) (simp_all add: step_greeting)

lemma media_stream_greeting: "greeting_inv (media_stream e p c b x cid)"
  by (simp add: greeting_inv_def greetings_def media_stream_def Let_def)

lemma on_message_greetingSent: "greetingSent s \<Longrightarrow> greetingSent (on_message e m s)"
  by (cases m) (auto simp: handlers Let_def split: option.splits)

lemma step_greetingSent: "greetingSent s \<Longrightarrow> greetingSent (step e s ev)"
  by (cases "phase s"; cases ev)
     (simp_all add: on_message_greetingSent handlers Let_def split: option.splits)

lemma run_greetingSent: "greetingSent s \<Longrightarrow> greetingSent (run e s evs)"
  by (induction evs arbitrary: s) (simp_all add: step_greetingSent)

lemma session_updated_greets:
  "greeting_inv s \<Longrightarrow> phase s = Active \<Longrightarrow> truthy (streamSid s) \<Longrightarrow>
   greetings (xaiSent (step e s (XaiData SessionUpdated))) = 1 \<and>
   greetingSent (step e s (XaiData SessionUpdated))"
  by (auto simp: greeting_inv_def greetings_def handlers Let_def split: if_splits)

lemma poll_tick_greets:
  "greeting_inv s \<Longrightarrow> phase s = Active \<Longrightarrow> sessionReady s \<Longrightarrow> truthy (streamSid s) \<Longrightarrow>
   i \<in> set (pollIntervals s) \<Longrightarrow>
   greetings (xaiSent (step e s (PollTick i))) = 1 \<and> greetingSent (step e s (PollTick i))"
  by (auto simp: greeting_inv_def greetings_def handlers Let_def split: if_splits)

paragraph \<open>Each greeting is followed by its \<open>response.create\<close>\<close>

lemma opening_turns_append:
  "\<not> ends_with_greeting ms \<Longrightarrow> opening_turns (ms @ ns) = opening_turns ms + opening_turns ns"
proof (induction ms rule: opening_turns.induct)
  case 1
  then show ?case by simp
next
  case (2 m)
  then show ?case by (cases ns) (simp_all add: ends_with_greeting_def)
next
  case (3 a b ms)
  then show ?case by (cases "ms = []") (auto simp: ends_with_greeting_def)
qed

lemma greetings_append: "greetings (ms @ ns) = greetings ms + greetings ns"
  by (simp add: greetings_def)

lemma ends_with_greeting_append:
  "ns \<noteq> [] \<Longrightarrow> ends_with_greeting (ms @ ns) = ends_with_greeting ns"
  by (simp add: ends_with_greeting_def)

lemma xai_send_paired:
  "paired_inv s \<Longrightarrow> \<not> is_greeting m \<Longrightarrow> paired_inv (xai_send m s)"
  by (simp add: paired_inv_def xai_send_def opening_turns_append greetings_append
      ends_with_greeting_append)
     (simp add: greetings_def ends_with_greeting_def)

lemma trySendGreeting_paired: "paired_inv s \<Longrightarrow> paired_inv (trySendGreeting e s)"
  by (simp add: paired_inv_def trySendGreeting_def xai_send_def opening_turns_append
      greetings_append ends_with_greeting_append)
     (simp add: greetings_def ends_with_greeting_def)

lemma paired_frame:
  "xaiSent s' = xaiSent s \<Longrightarrow> paired_inv s \<Longrightarrow> paired_inv s'"
  by (simp add: paired_inv_def)

lemma second_chain_paired: "paired_inv s \<Longrightarrow> paired_inv (second_chain m s)"
  by (rule paired_frame [of _ s]) simp_all

lemma on_message_paired: "paired_inv s \<Longrightarrow> paired_inv (on_message e m s)"
proof (cases m)
  case SessionUpdated
  assume inv: "paired_inv s"
  have "paired_inv (s\<lparr>sessionReady := True\<rparr>)"
    using inv by (simp add: paired_inv_def)
  then have "paired_inv (trySendGreeting e (s\<lparr>sessionReady := True\<rparr>))"
    by (rule trySendGreeting_paired)
  then show ?thesis
    using SessionUpdated by (auto simp: paired_inv_def log_def Let_def)
next
  case ConversationCreated
  assume "paired_inv s"
  then have "paired_inv (xai_send SessionUpdate s)"
    by (rule xai_send_paired) simp
  then show ?thesis
    using ConversationCreated by (simp add: paired_inv_def log_def)
qed (auto simp: paired_inv_def dispatch_def log_def tw_send_def backend_def Let_def
      split: option.splits)

lemma on_settled_paired: "paired_inv s \<Longrightarrow> paired_inv (on_settled i s)"
proof -
  assume inv: "paired_inv s"
  let ?s1 = "s\<lparr>pendingTools := take i (pendingTools s) @ drop (Suc i) (pendingTools s)\<rparr>"
  have "paired_inv ?s1" using inv by (simp add: paired_inv_def)
  then have "paired_inv (xai_send (FunctionCallOutput (fc_callId s) (pendingTools s ! i)) ?s1)"
    by (rule xai_send_paired) simp
  then have "paired_inv (xai_send ResponseCreate
      (xai_send (FunctionCallOutput (fc_callId s) (pendingTools s ! i)) ?s1))"
    by (rule xai_send_paired) simp
  then show ?thesis
    using inv by (simp add: on_settled_def paired_inv_def)
qed

lemma on_media_paired: "paired_inv s \<Longrightarrow> paired_inv (on_media tr payload s)"
proof -
  assume inv: "paired_inv s"
  let ?s1 = "s\<lparr>audioPacketCount := Suc (audioPacketCount s)\<rparr>"
  have s1: "paired_inv ?s1" using inv by (simp add: paired_inv_def)
  then have "paired_inv (xai_send (InputAudioBufferAppend payload) ?s1)"
    by (rule xai_send_paired) simp
  then show ?thesis
    using s1 by (simp add: on_media_def Let_def) (simp add: paired_inv_def log_def)
qed

lemma on_poll_paired: "paired_inv s \<Longrightarrow> paired_inv (on_poll e i s)"
proof -
  assume inv: "paired_inv s"
  then have "paired_inv (s\<lparr>pollIntervals := removeAll i (pollIntervals s)\<rparr>)"
    by (simp add: paired_inv_def)
  then have "paired_inv (trySendGreeting e (s\<lparr>pollIntervals := removeAll i (pollIntervals s)\<rparr>))"
    by (rule trySendGreeting_paired)
  then show ?thesis using inv by (simp add: on_poll_def)
qed

lemma on_xai_open_paired: "paired_inv s \<Longrightarrow> paired_inv (on_xai_open e s)"
proof -
  assume inv: "paired_inv s"
  then have s1: "paired_inv (s\<lparr>phase := Active, xaiReadyState := OPEN\<rparr>)"
    by (simp add: paired_inv_def)
  then have "paired_inv (trySendGreeting e (s\<lparr>phase := Active, xaiReadyState := OPEN\<rparr>))"
    by (rule trySendGreeting_paired)
  then show ?thesis using s1 by (simp add: on_xai_open_def Let_def)
qed

lemma connecting_step_paired: "paired_inv s \<Longrightarrow> paired_inv (connecting_step e ev s)"
  by (cases ev) (simp_all add: on_xai_open_paired, simp_all add: paired_inv_def on_start_def log_def)

lemma aborted_step_paired: "paired_inv s \<Longrightarrow> paired_inv (aborted_step ev s)"
  by (cases ev) (simp_all add: paired_inv_def on_start_def log_def)

lemma active_step_paired: "paired_inv s \<Longrightarrow> paired_inv (active_step e ev s)"
  by (cases ev)
     (simp_all add: on_message_paired on_settled_paired on_media_paired on_poll_paired,
      auto simp: paired_inv_def on_start_def log_def on_poll_timeout_def on_twilio_close_def
        xai_close_def cleanup_def backend_def on_end_conversation_settled_def Let_def
        split: option.splits)

lemma step_paired: "paired_inv s \<Longrightarrow> paired_inv (step e s ev)"
  by (cases "phase s")
     (simp_all add: step_def connecting_step_paired active_step_paired aborted_step_paired)

lemma run_paired: "paired_inv s \<Longrightarrow> paired_inv (run e s evs)"
  by (induction evs arbitrary: s) (simp_all add: step_paired)

lemma media_stream_paired: "paired_inv (media_stream e p c b x cid)"
  by (simp add: paired_inv_def greetings_def ends_with_greeting_def media_stream_def Let_def)


lemma session_updated_sends:
  "phase s = Active \<Longrightarrow> truthy (streamSid s) \<Longrightarrow> \<not> greetingSent s \<Longrightarrow>
   xaiSent (step e s (XaiData SessionUpdated)) =
     xaiSent s @ [ConversationItemCreate (greeting e (userContext s)), ResponseCreate]"
  by (simp add: handlers Let_def)

lemma poll_tick_sends:
  "phase s = Active \<Longrightarrow> sessionReady s \<Longrightarrow> truthy (streamSid s) \<Longrightarrow>
   i \<in> set (pollIntervals s) \<Longrightarrow> \<not> greetingSent s \<Longrightarrow>
   xaiSent (step e s (PollTick i)) =
     xaiSent s @ [ConversationItemCreate (greeting e (userContext s)), ResponseCreate]"
  by (simp add: handlers Let_def)

lemma start_sends_nothing:
  "xaiSent (step e s (TwilioStart sid)) = xaiSent s \<and>
   greetingSent (step e s (TwilioStart sid)) = greetingSent s"
  by (cases "phase s") (simp_all add: handlers)

lemma poll_timeout_clears:
  "phase s = Active \<Longrightarrow>
   i \<notin> set (pollIntervals (step e s (PollTimeout i))) \<and>
   xaiSent (step e s (PollTimeout i)) = xaiSent s"
  by (simp add: handlers)

text \<open>
  C2, as the code has it. In every run of a call the scripted opening turn is sent at most
  once, and always as the pair of the greeting item directly followed by
  \<open>response.create\<close>; \<open>greetingSent\<close>, once true, stays true. The turn has been sent
  exactly once after \<open>session.updated\<close> arrives on an active call whose stream has
  started, and after a tick of a poll that \<open>session.updated\<close> started when the stream has
  started since; where it had not been sent before, that event sends exactly the pair. The
  handler of the stream-start sends nothing and leaves \<open>greetingSent\<close> as it is, and the
  time-out of a poll removes the poll and sends nothing.
\<close>

theorem opening_turn_at_most_once:
  "opening_turns (xaiSent (run e (media_stream e p c b x cid) evs)) \<le> 1 \<and>
   greetings (xaiSent (run e (media_stream e p c b x cid) evs)) =
     opening_turns (xaiSent (run e (media_stream e p c b x cid) evs)) \<and>
   (greetingSent (run e (media_stream e p c b x cid) evs) \<longrightarrow>
      greetingSent (run e (media_stream e p c b x cid) (evs @ later))) \<and>
   (phase (run e (media_stream e p c b x cid) evs) = Active \<and>
    truthy (streamSid (run e (media_stream e p c b x cid) evs)) \<longrightarrow>
      opening_turns (xaiSent (run e (media_stream e p c b x cid) (evs @ [XaiData SessionUpdated]))) = 1 \<and>
      (\<not> greetingSent (run e (media_stream e p c b x cid) evs) \<longrightarrow>
         xaiSent (run e (media_stream e p c b x cid) (evs @ [XaiData SessionUpdated])) =
           xaiSent (run e (media_stream e p c b x cid) evs) @
             [ConversationItemCreate
                (greeting e (userContext (run e (media_stream e p c b x cid) evs))),
              ResponseCreate])) \<and>
   (phase (run e (media_stream e p c b x cid) evs) = Active \<and>
    sessionReady (run e (media_stream e p c b x cid) evs) \<and>
    truthy (streamSid (run e (media_stream e p c b x cid) evs)) \<and>
    i \<in> set (pollIntervals (run e (media_stream e p c b x cid) evs)) \<longrightarrow>
      opening_turns (xaiSent (run e (media_stream e p c b x cid) (evs @ [PollTick i]))) = 1 \<and>
      (\<not> greetingSent (run e (media_stream e p c b x cid) evs) \<longrightarrow>
         xaiSent (run e (media_stream e p c b x cid) (evs @ [PollTick i])) =
           xaiSent (run e (media_stream e p c b x cid) evs) @
             [ConversationItemCreate
                (greeting e (userContext (run e (media_stream e p c b x cid) evs))),
              ResponseCreate])) \<and>
   xaiSent (run e (media_stream e p c b x cid) (evs @ [TwilioStart sid])) =
     xaiSent (run e (media_stream e p c b x cid) evs) \<and>
   greetingSent (run e (media_stream e p c b x cid) (evs @ [TwilioStart sid])) =
     greetingSent (run e (media_stream e p c b x cid) evs) \<and>
   (phase (run e (media_stream e p c b x cid) evs) = Active \<longrightarrow>
      i \<notin> set (pollIntervals (run e (media_stream e p c b x cid) (evs @ [PollTimeout i]))) \<and>
      xaiSent (run e (media_stream e p c b x cid) (evs @ [PollTimeout i])) =
        xaiSent (run e (media_stream e p c b x cid) evs))"
proof -
  let ?S = "run e (media_stream e p c b x cid) evs"
  have inv: "greeting_inv ?S"
    by (rule run_greeting) (rule media_stream_greeting)
  have pinv: "paired_inv ?S"
    by (rule run_paired) (rule media_stream_paired)
  have paired: "\<And>ev. opening_turns (xaiSent (step e ?S ev)) = greetings (xaiSent (step e ?S ev))"
    using step_paired [OF pinv] by (simp add: paired_inv_def)
  have c1: "opening_turns (xaiSent ?S) \<le> 1"
    using inv pinv by (simp add: greeting_inv_def paired_inv_def)
  have c2: "greetings (xaiSent ?S) = opening_turns (xaiSent ?S)"
    using pinv by (simp add: paired_inv_def)
  have c3: "greetingSent ?S \<longrightarrow> greetingSent (run e (media_stream e p c b x cid) (evs @ later))"
    by (simp add: run_append run_greetingSent)
  have c4: "phase ?S = Active \<and> truthy (streamSid ?S) \<longrightarrow>
      opening_turns (xaiSent (run e (media_stream e p c b x cid) (evs @ [XaiData SessionUpdated]))) = 1 \<and>
      (\<not> greetingSent ?S \<longrightarrow>
         xaiSent (run e (media_stream e p c b x cid) (evs @ [XaiData SessionUpdated])) =
           xaiSent ?S @ [ConversationItemCreate (greeting e (userContext ?S)), ResponseCreate])"
    using session_updated_greets [OF inv, of e] session_updated_sends [of ?S e]
      paired [of "XaiData SessionUpdated"]
    by (simp add: run_append)
  have c5: "phase ?S = Active \<and> sessionReady ?S \<and> truthy (streamSid ?S) \<and>
      i \<in> set (pollIntervals ?S) \<longrightarrow>
      opening_turns (xaiSent (run e (media_stream e p c b x cid) (evs @ [PollTick i]))) = 1 \<and>
      (\<not> greetingSent ?S \<longrightarrow>
         xaiSent (run e (media_stream e p c b x cid) (evs @ [PollTick i])) =
           xaiSent ?S @ [ConversationItemCreate (greeting e (userContext ?S)), ResponseCreate])"
    using poll_tick_greets [OF inv, of i e] poll_tick_sends [of ?S i e] paired [of "PollTick i"]
    by (simp add: run_append)
  have c6: "xaiSent (run e (media_stream e p c b x cid) (evs @ [TwilioStart sid])) = xaiSent ?S \<and>
      greetingSent (run e (media_stream e p c b x cid) (evs @ [TwilioStart sid])) = greetingSent ?S"
    using start_sends_nothing [of e ?S sid] by (simp add: run_append)
  have c7: "phase ?S = Active \<longrightarrow>
      i \<notin> set (pollIntervals (run e (media_stream e p c b x cid) (evs @ [PollTimeout i]))) \<and>
      xaiSent (run e (media_stream e p c b x cid) (evs @ [PollTimeout i])) = xaiSent ?S"
    using poll_timeout_clears [of ?S i e] by (simp add: run_append)
  from c1 c2 c3 c4 c5 c6 c7 show ?thesis by blast
qed

theorem opening_turn_at_most_once_witness:
  "greetingSent (run demo_env demo_call [TwilioStart ''MZ1'', XaiOpen, XaiData SessionUpdated]) \<and>
   greetingSent (run demo_env demo_call
     ([TwilioStart ''MZ1'', XaiOpen, XaiData SessionUpdated] @ [XaiData SessionUpdated, PollTick 0])) \<and>
   phase (run demo_env demo_call [TwilioStart ''MZ1'', XaiOpen]) = Active \<and>
   truthy (streamSid (run demo_env demo_call [TwilioStart ''MZ1'', XaiOpen])) \<and>
   \<not> greetingSent (run demo_env demo_call [TwilioStart ''MZ1'', XaiOpen]) \<and>
   xaiSent (run demo_env demo_call
     ([TwilioStart ''MZ1'', XaiOpen] @ [XaiData SessionUpdated])) =
     [ConversationItemCreate (GreetByName Morning (Some ''Ada'') []), ResponseCreate] \<and>
   opening_turns (xaiSent (run demo_env demo_call
     ([TwilioStart ''MZ1'', XaiOpen] @ [XaiData SessionUpdated]))) = 1 \<and>
   sessionReady (run demo_env demo_call [XaiOpen, XaiData SessionUpdated, TwilioStart ''MZ1'']) \<and>
   0 \<in> set (pollIntervals (run demo_env demo_call [XaiOpen, XaiData SessionUpdated, TwilioStart ''MZ1''])) \<and>
   \<not> greetingSent (run demo_env demo_call [XaiOpen, XaiData SessionUpdated, TwilioStart ''MZ1'']) \<and>
   xaiSent (run demo_env demo_call
     ([XaiOpen, XaiData SessionUpdated, TwilioStart ''MZ1''] @ [PollTick 0])) =
     [ConversationItemCreate (GreetByName Morning (Some ''Ada'') []), ResponseCreate] \<and>
   opening_turns (xaiSent (run demo_env demo_call
     ([XaiOpen, XaiData SessionUpdated, TwilioStart ''MZ1''] @ [PollTick 0]))) = 1 \<and>
   0 \<notin> set (pollIntervals (run demo_env demo_call
     ([XaiOpen, XaiData SessionUpdated, TwilioStart ''MZ1''] @ [PollTimeout 0])))"
  using
    opening_turn_at_most_once [of demo_env "twiml Map.empty ''call_1'' ''+15550100''" Map.empty
      Map.empty Map.empty "''call_1''" "[TwilioStart ''MZ1'', XaiOpen, XaiData SessionUpdated]"
      "[XaiData SessionUpdated, PollTick 0]" 0 "''MZ1''"]
    opening_turn_at_most_once [of demo_env "twiml Map.empty ''call_1'' ''+15550100''" Map.empty
      Map.empty Map.empty "''call_1''" "[TwilioStart ''MZ1'', XaiOpen]" "[]" 0 "''MZ1''"]
    opening_turn_at_most_once [of demo_env "twiml Map.empty ''call_1'' ''+15550100''" Map.empty
      Map.empty Map.empty "''call_1''" "[XaiOpen, XaiData SessionUpdated, TwilioStart ''MZ1'']" "[]" 0
      "''MZ1''"]
  by (simp add: demo_defs handlers greetings_def)

text \<open>
  C2, as the claim states it, fails for the order in which \<open>session.updated\<close> comes first
  and the stream starts after the poll has timed out: both readiness signals have arrived,
  no poll is left, and the opening turn has not been sent.
\<close>

theorem opening_turn_counterexample:
  "sessionReady (run demo_env demo_call
     [XaiOpen, XaiData SessionUpdated, PollTimeout 0, TwilioStart ''MZ1'', PollTick 0]) \<and>
   streamSid (run demo_env demo_call
     [XaiOpen, XaiData SessionUpdated, PollTimeout 0, TwilioStart ''MZ1'', PollTick 0]) = Some ''MZ1'' \<and>
   pollIntervals (run demo_env demo_call
     [XaiOpen, XaiData SessionUpdated, PollTimeout 0, TwilioStart ''MZ1'', PollTick 0]) = [] \<and>
   \<not> greetingSent (run demo_env demo_call
     [XaiOpen, XaiData SessionUpdated, PollTimeout 0, TwilioStart ''MZ1'', PollTick 0]) \<and>
   greetings (xaiSent (run demo_env demo_call
     [XaiOpen, XaiData SessionUpdated, PollTimeout 0, TwilioStart ''MZ1'', PollTick 0])) = 0"
  by (simp add: demo_defs handlers greetings_def)

subsection \<open>Audio from the caller\<close>

lemma on_message_audio: "audio_inv s \<Longrightarrow> audio_inv (on_message e m s)"
  by (cases m) (auto simp: audio_inv_def forwarded_audio_def handlers Let_def split: option.splits)

lemma connecting_step_audio: "audio_inv s \<Longrightarrow> audio_inv (connecting_step e ev s)"
  by (cases ev) (auto simp: audio_inv_def forwarded_audio_def handlers Let_def)

lemma aborted_step_audio: "audio_inv s \<Longrightarrow> audio_inv (aborted_step ev s)"
  by (cases ev) (auto simp: audio_inv_def forwarded_audio_def handlers Let_def)

lemma active_step_audio: "audio_inv s \<Longrightarrow> audio_inv (active_step e ev s)"
  by (cases ev)
     (simp_all add: on_message_audio,
      auto simp: audio_inv_def forwarded_audio_def handlers Let_def split: option.splits)

lemma step_audio: "audio_inv s \<Longrightarrow> audio_inv (step e s ev)"
  by (cases "phase s")
     (simp_all add: step_def connecting_step_audio active_step_audio aborted_step_audio)

lemma run_audio: "audio_inv s \<Longrightarrow> audio_inv (run e s evs)"
  by (induction evs arbitrary: s) (simp_all add: step_audio)

lemma on_message_notice: "notice_inv s \<Longrightarrow> notice_inv (on_message e m s)"
  by (cases m) (auto simp: notice_inv_def waiting_notices_def handlers Let_def split: option.splits)

lemma connecting_step_notice: "notice_inv s \<Longrightarrow> notice_inv (connecting_step e ev s)"
  by (cases ev) (auto simp: notice_inv_def waiting_notices_def handlers Let_def)

lemma aborted_step_notice: "notice_inv s \<Longrightarrow> notice_inv (aborted_step ev s)"
  by (cases ev) (auto simp: notice_inv_def waiting_notices_def handlers Let_def)

lemma active_step_notice: "notice_inv s \<Longrightarrow> notice_inv (active_step e ev s)"
  by (cases ev)
     (simp_all add: on_message_notice,
      auto simp: notice_inv_def waiting_notices_def handlers Let_def split: option.splits if_splits)

lemma step_notice: "notice_inv s \<Longrightarrow> notice_inv (step e s ev)"
  by (cases "phase s")
     (simp_all add: step_def connecting_step_notice active_step_notice aborted_step_notice)

lemma run_notice: "notice_inv s \<Longrightarrow> notice_inv (run e s evs)"
  by (induction evs arbitrary: s) (simp_all add: step_notice)

lemma media_stream_audio: "audio_inv (media_stream e p c b x cid)"
  by (simp add: audio_inv_def forwarded_audio_def media_stream_def Let_def)

lemma media_stream_notice: "notice_inv (media_stream e p c b x cid)"
  by (simp add: notice_inv_def waiting_notices_def media_stream_def Let_def)

lemma media_dropped:
  "phase s = Active \<Longrightarrow> \<not> sessionReady s \<Longrightarrow>
   step e s (TwilioMedia Inbound payload) =
     (if audioPacketCount s = 0
      then log Info_waiting_for_session_updated (s\<lparr>audioPacketCount := 1\<rparr>)
      else s\<lparr>audioPacketCount := Suc (audioPacketCount s)\<rparr>)"
  by (simp add: handlers Let_def)

lemma on_message_sessionReady:
  "sessionReady (on_message e m s) \<Longrightarrow> sessionReady s \<or> m = SessionUpdated"
  by (cases m) (auto simp: handlers Let_def split: option.splits if_splits)

lemma step_sessionReady:
  "sessionReady (step e s ev) \<Longrightarrow> sessionReady s \<or> ev = XaiData SessionUpdated"
  by (cases "phase s"; cases ev)
     (auto simp: handlers Let_def dest: on_message_sessionReady split: option.splits if_splits)

lemma run_sessionReady:
  "sessionReady (run e s evs) \<Longrightarrow> sessionReady s \<or> XaiData SessionUpdated \<in> set evs"
proof (induction evs arbitrary: s)
  case Nil
  then show ?case by simp
next
  case (Cons ev evs)
  from Cons.IH [of "step e s ev"] Cons.prems
  have "sessionReady (step e s ev) \<or> XaiData SessionUpdated \<in> set evs"
    by simp
  then show ?case
    using step_sessionReady [of e s ev] by auto
qed

lemma media_stream_not_ready: "\<not> sessionReady (media_stream e p c b x cid)"
  by (simp add: media_stream_def Let_def)

text \<open>
  C3. In every run of a call, \<open>sessionReady\<close> is set only by \<open>session.updated\<close>, and as
  long as it is not set no inbound audio frame has been forwarded to the x.ai socket. A
  frame that arrives before readiness is dropped and not kept: the state after it is the
  state before it with the packet counter advanced (and, for the first packet of the call,
  the notice logged), so the payload is stored nowhere. The notice is logged at most once
  per call.
\<close>

theorem inbound_audio_waits_for_session:
  "(sessionReady (run e (media_stream e p c b x cid) evs) \<longrightarrow> XaiData SessionUpdated \<in> set evs) \<and>
   (\<not> sessionReady (run e (media_stream e p c b x cid) evs) \<longrightarrow>
      forwarded_audio (xaiSent (run e (media_stream e p c b x cid) evs)) = []) \<and>
   (phase (run e (media_stream e p c b x cid) evs) = Active \<and>
    \<not> sessionReady (run e (media_stream e p c b x cid) evs) \<longrightarrow>
      step e (run e (media_stream e p c b x cid) evs) (TwilioMedia Inbound payload) =
        (if audioPacketCount (run e (media_stream e p c b x cid) evs) = 0
         then log Info_waiting_for_session_updated
                ((run e (media_stream e p c b x cid) evs)\<lparr>audioPacketCount := 1\<rparr>)
         else (run e (media_stream e p c b x cid) evs)
                \<lparr>audioPacketCount := Suc (audioPacketCount (run e (media_stream e p c b x cid) evs))\<rparr>)) \<and>
   waiting_notices (logs (run e (media_stream e p c b x cid) evs)) \<le> 1"
proof -
  let ?S = "run e (media_stream e p c b x cid) evs"
  have "audio_inv ?S"
    by (rule run_audio) (rule media_stream_audio)
  then have "\<not> sessionReady ?S \<longrightarrow> forwarded_audio (xaiSent ?S) = []"
    unfolding audio_inv_def by blast
  moreover have "notice_inv ?S"
    by (rule run_notice) (rule media_stream_notice)
  then have "waiting_notices (logs ?S) \<le> 1"
    by (simp add: notice_inv_def split: if_splits)
  moreover have "sessionReady ?S \<longrightarrow> XaiData SessionUpdated \<in> set evs"
    using run_sessionReady [of e "media_stream e p c b x cid" evs] media_stream_not_ready [of e p c b x cid]
    by blast
  ultimately show ?thesis
    using media_dropped [of ?S e payload] by blast
qed

theorem inbound_audio_waits_for_session_witness:
  "\<not> sessionReady (run demo_env demo_call [TwilioStart ''MZ1'', XaiOpen, TwilioMedia Inbound ''AAAA'']) \<and>
   phase (run demo_env demo_call [TwilioStart ''MZ1'', XaiOpen, TwilioMedia Inbound ''AAAA'']) = Active \<and>
   forwarded_audio (xaiSent (run demo_env demo_call
      [TwilioStart ''MZ1'', XaiOpen, TwilioMedia Inbound ''AAAA''])) = [] \<and>
   logs (run demo_env demo_call [TwilioStart ''MZ1'', XaiOpen, TwilioMedia Inbound ''AAAA'']) =
     [Info_waiting_for_session_updated] \<and>
   step demo_env (run demo_env demo_call [TwilioStart ''MZ1'', XaiOpen, TwilioMedia Inbound ''AAAA''])
       (TwilioMedia Inbound ''BBBB'') =
     (run demo_env demo_call [TwilioStart ''MZ1'', XaiOpen, TwilioMedia Inbound ''AAAA''])
       \<lparr>audioPacketCount := 2\<rparr> \<and>
   sessionReady (run demo_env demo_call [TwilioStart ''MZ1'', XaiOpen, XaiData SessionUpdated]) \<and>
   XaiData SessionUpdated \<in> set [TwilioStart ''MZ1'', XaiOpen, XaiData SessionUpdated]"
  using
    inbound_audio_waits_for_session [of demo_env "twiml Map.empty ''call_1'' ''+15550100''"
      Map.empty Map.empty Map.empty "''call_1''"
      "[TwilioStart ''MZ1'', XaiOpen, TwilioMedia Inbound ''AAAA'']" "''BBBB''"]
    inbound_audio_waits_for_session [of demo_env "twiml Map.empty ''call_1'' ''+15550100''"
      Map.empty Map.empty Map.empty "''call_1''"
      "[TwilioStart ''MZ1'', XaiOpen, XaiData SessionUpdated]" "''BBBB''"]
  by (simp add: demo_defs handlers forwarded_audio_def)

subsection \<open>Audio to the caller\<close>

lemma on_message_unaddressed: "unaddressed_inv s \<Longrightarrow> unaddressed_inv (on_message e m s)"
  by (cases m) (auto simp: unaddressed_inv_def media_frames_def handlers Let_def split: option.splits)

lemma step_unaddressed: "unaddressed_inv s \<Longrightarrow> \<not> is_start ev \<Longrightarrow> unaddressed_inv (step e s ev)"
  by (cases "phase s"; cases ev)
     (simp_all add: on_message_unaddressed step_def,
      auto simp: unaddressed_inv_def media_frames_def handlers Let_def split: option.splits)

lemma run_unaddressed:
  "unaddressed_inv s \<Longrightarrow> \<not> list_ex is_start evs \<Longrightarrow> unaddressed_inv (run e s evs)"
  by (induction evs arbitrary: s) (simp_all add: step_unaddressed)

lemma media_stream_unaddressed: "unaddressed_inv (media_stream e p c b x cid)"
  by (simp add: unaddressed_inv_def media_frames_def media_stream_def Let_def)

lemma early_frame_dropped:
  "phase s = Active \<Longrightarrow> \<not> truthy (streamSid s) \<Longrightarrow>
   twilioSent (step e s (XaiData (OutputAudioDelta d))) = twilioSent s \<and>
   length (logs (step e s (XaiData (OutputAudioDelta d)))) = Suc (length (logs s)) \<and>
   (truthy d \<longrightarrow> logs (step e s (XaiData (OutputAudioDelta d))) = logs s @ [Warn_streamSid_not_set])"
  by (auto simp: handlers truthy_def split: option.splits)

lemma on_message_addressed: "addressed_inv s \<Longrightarrow> addressed_inv (on_message e m s)"
  by (cases m) (auto simp: addressed_inv_def handlers Let_def split: option.splits)

lemma tw_send_addressed:
  "addressed_inv s \<Longrightarrow> addressed m \<Longrightarrow> addressed_inv (tw_send m s)"
  by (simp add: addressed_inv_def tw_send_def)

lemma step_twilioSent_cases:
  "twilioSent (step e s ev) = twilioSent s \<or>
   (\<exists>m. ev = XaiData m \<and> step e s ev = on_message e m s)"
  by (cases "phase s"; cases ev) (simp_all add: handlers Let_def split: option.splits)

lemma step_addressed: "addressed_inv s \<Longrightarrow> addressed_inv (step e s ev)"
  using step_twilioSent_cases [of e s ev] on_message_addressed [of s e]
  by (auto simp: addressed_inv_def)

lemma run_addressed: "addressed_inv s \<Longrightarrow> addressed_inv (run e s evs)"
  by (induction evs arbitrary: s) (simp_all add: step_addressed)

lemma media_stream_addressed: "addressed_inv (media_stream e p c b x cid)"
  by (simp add: addressed_inv_def media_stream_def Let_def)

text \<open>
  C4. In a run without a stream-start event no media frame is handed to the telephony
  side, and every media frame that a run hands over carries a \<open>streamSid\<close>. Whenever
  \<open>streamSid\<close> is unset, an audio delta from x.ai sends nothing to Twilio and adds one
  line to the log; for a delta that carries audio the line is the warning that the
  \<open>streamSid\<close> is not set yet.
\<close>

theorem outbound_audio_waits_for_stream:
  "(\<not> list_ex is_start evs \<longrightarrow>
      media_frames (twilioSent (run e (media_stream e p c b x cid) evs)) = []) \<and>
   list_all addressed (twilioSent (run e (media_stream e p c b x cid) evs)) \<and>
   (phase s = Active \<and> \<not> truthy (streamSid s) \<longrightarrow>
      twilioSent (step e s (XaiData (OutputAudioDelta d))) = twilioSent s \<and>
      length (logs (step e s (XaiData (OutputAudioDelta d)))) = Suc (length (logs s)) \<and>
      (truthy d \<longrightarrow>
         logs (step e s (XaiData (OutputAudioDelta d))) = logs s @ [Warn_streamSid_not_set]))"
proof -
  have "\<not> list_ex is_start evs \<longrightarrow>
      media_frames (twilioSent (run e (media_stream e p c b x cid) evs)) = []"
    using run_unaddressed [OF media_stream_unaddressed, of evs e e p c b x cid]
    by (simp add: unaddressed_inv_def)
  moreover have "list_all addressed (twilioSent (run e (media_stream e p c b x cid) evs))"
    using run_addressed [OF media_stream_addressed, of e e p c b x cid evs]
    by (simp add: addressed_inv_def)
  ultimately show ?thesis
    using early_frame_dropped [of s e d] by blast
qed

theorem outbound_audio_waits_for_stream_witness:
  "\<not> list_ex is_start [XaiOpen, XaiData SessionUpdated, XaiData (OutputAudioDelta (Some ''AAAA''))] \<and>
   media_frames (twilioSent (run demo_env demo_call
      [XaiOpen, XaiData SessionUpdated, XaiData (OutputAudioDelta (Some ''AAAA''))])) = [] \<and>
   phase (run demo_env demo_call [XaiOpen, XaiData SessionUpdated]) = Active \<and>
   \<not> truthy (streamSid (run demo_env demo_call [XaiOpen, XaiData SessionUpdated])) \<and>
   truthy (Some ''AAAA'') \<and>
   logs (step demo_env (run demo_env demo_call [XaiOpen, XaiData SessionUpdated])
      (XaiData (OutputAudioDelta (Some ''AAAA'')))) =
     logs (run demo_env demo_call [XaiOpen, XaiData SessionUpdated]) @ [Warn_streamSid_not_set] \<and>
   twilioSent (run demo_env demo_call
      [XaiOpen, XaiData SessionUpdated, XaiData (OutputAudioDelta (Some ''AAAA'')),
       TwilioStart ''MZ1'', XaiData (OutputAudioDelta (Some ''BBBB''))]) = [Media ''BBBB'' ''MZ1'']"
  using outbound_audio_waits_for_stream [of
      "[XaiOpen, XaiData SessionUpdated, XaiData (OutputAudioDelta (Some ''AAAA''))]"
      demo_env "twiml Map.empty ''call_1'' ''+15550100''" Map.empty Map.empty Map.empty "''call_1''"
      "run demo_env demo_call [XaiOpen, XaiData SessionUpdated]" "Some ''AAAA''"]
  by (simp add: demo_defs handlers media_frames_def)

subsection \<open>Barge-in\<close>

lemma on_message_twilioSent: "\<exists>ys. twilioSent (on_message e m s) = twilioSent s @ ys"
  by (cases m) (auto simp: handlers Let_def split: option.splits)

lemma step_twilioSent: "\<exists>ys. twilioSent (step e s ev) = twilioSent s @ ys"
  by (cases "phase s"; cases ev)
     (simp_all add: on_message_twilioSent step_def, auto simp: handlers Let_def split: option.splits)

lemma run_twilioSent: "\<exists>ys. twilioSent (run e s evs) = twilioSent s @ ys"
proof (induction evs arbitrary: s)
  case Nil
  show ?case by simp
next
  case (Cons ev evs)
  obtain ys where "twilioSent (step e s ev) = twilioSent s @ ys"
    using step_twilioSent by blast
  moreover obtain zs where "twilioSent (run e (step e s ev) evs) = twilioSent (step e s ev) @ zs"
    using Cons.IH by blast
  ultimately show ?case by simp
qed

lemma twilioSent_run: "twilioSent (run e s evs) = twilioSent s @ sent_to_twilio e s evs"
proof -
  obtain ys where "twilioSent (run e s evs) = twilioSent s @ ys"
    using run_twilioSent by blast
  then show ?thesis by (simp add: sent_to_twilio_def)
qed

lemma speech_started_clears:
  "phase s = Active \<Longrightarrow>
   twilioSent (step e s (XaiData SpeechStarted)) = twilioSent s @ [Clear (streamSid s)]"
  by (simp add: handlers)

text \<open>
  The order within a batch of events that contains the speech-started signal: the clear
  command, with the \<open>streamSid\<close> of that moment, is handed to Twilio right after what
  the events before the signal have sent and before anything the events after it send.
\<close>

lemma barge_in_clears_before_later_audio:
  assumes "phase (run e s before) = Active"
  shows "twilioSent (run e s (before @ XaiData SpeechStarted # after)) =
           twilioSent (run e s before) @ Clear (streamSid (run e s before))
             # sent_to_twilio e (step e (run e s before) (XaiData SpeechStarted)) after"
proof -
  let ?S = "run e s before"
  have "twilioSent (run e s (before @ XaiData SpeechStarted # after)) =
          twilioSent (run e (step e ?S (XaiData SpeechStarted)) after)"
    by (simp add: run_append)
  also have "\<dots> = twilioSent (step e ?S (XaiData SpeechStarted))
                    @ sent_to_twilio e (step e ?S (XaiData SpeechStarted)) after"
    by (rule twilioSent_run)
  finally show ?thesis
    using speech_started_clears [OF assms] by simp
qed

lemma barge_in_clears_before_later_audio_example:
  "phase (run demo_env demo_call
      [TwilioStart ''MZ1'', XaiOpen, XaiData SessionUpdated, XaiData (OutputAudioDelta (Some ''AAAA''))])
     = Active \<and>
   twilioSent (run demo_env demo_call
      ([TwilioStart ''MZ1'', XaiOpen, XaiData SessionUpdated, XaiData (OutputAudioDelta (Some ''AAAA''))]
        @ XaiData SpeechStarted # [XaiData (OutputAudioDelta (Some ''BBBB''))])) =
     [Media ''AAAA'' ''MZ1'', Clear (Some ''MZ1''), Media ''BBBB'' ''MZ1'']"
  using barge_in_clears_before_later_audio [of demo_env demo_call
      "[TwilioStart ''MZ1'', XaiOpen, XaiData SessionUpdated, XaiData (OutputAudioDelta (Some ''AAAA''))]"
      "[XaiData (OutputAudioDelta (Some ''BBBB''))]"]
  by (simp add: demo_defs handlers sent_to_twilio_def)

lemma speech_started_addressed:
  "phase s = Active \<Longrightarrow> streamSid s = Some sid \<Longrightarrow>
   twilioSent (step e s (XaiData SpeechStarted)) = twilioSent s @ [Clear (Some sid)]"
  by (simp add: handlers)

text \<open>
  C9 on a run in which the speech-started signal precedes the stream-start. The handler
  sends \<open>streamSid: tw.streamSid!\<close> without testing it, so the clear command goes out
  with no \<open>streamSid\<close>: it is not addressed by the stream handle. The branch for audio
  deltas tests \<open>tw.streamSid\<close> first and, in the same state, sends nothing and logs the
  warning.
\<close>

theorem barge_in_clear_unaddressed:
  "phase (run demo_env demo_call [XaiOpen, XaiData ConversationCreated, XaiData SessionUpdated]) = Active \<and>
   streamSid (run demo_env demo_call
      [XaiOpen, XaiData ConversationCreated, XaiData SessionUpdated]) = None \<and>
   twilioSent (run demo_env demo_call
      [XaiOpen, XaiData ConversationCreated, XaiData SessionUpdated, XaiData SpeechStarted]) =
     [Clear None] \<and>
   twilioSent (run demo_env demo_call
      [XaiOpen, XaiData ConversationCreated, XaiData SessionUpdated,
       XaiData (OutputAudioDelta (Some ''AAAA''))]) = [] \<and>
   logs (run demo_env demo_call
      [XaiOpen, XaiData ConversationCreated, XaiData SessionUpdated,
       XaiData (OutputAudioDelta (Some ''AAAA''))]) =
     [Debug_unknown ''conversation.created'', Debug_unknown ''session.updated'',
      Warn_streamSid_not_set]"
  by (simp add: demo_defs handlers)

subsection \<open>Tool-call arguments\<close>

lemma delta_step:
  "phase s = Active \<Longrightarrow>
   step e s (XaiData (FunctionCallArgumentsDelta d)) =
     log (Debug_unknown ''response.function_call_arguments.delta'')
       (s\<lparr>fc_arguments := fc_arguments s @ or_default d []\<rparr>)"
  by (simp add: step_def)

lemma deltas_accumulate:
  "phase s = Active \<Longrightarrow>
   fc_arguments (run e s (map (\<lambda>d. XaiData (FunctionCallArgumentsDelta d)) ds)) =
     fc_arguments s @ concat (map (\<lambda>d. or_default d []) ds) \<and>
   phase (run e s (map (\<lambda>d. XaiData (FunctionCallArgumentsDelta d)) ds)) = Active \<and>
   dispatched (run e s (map (\<lambda>d. XaiData (FunctionCallArgumentsDelta d)) ds)) = dispatched s \<and>
   pendingTools (run e s (map (\<lambda>d. XaiData (FunctionCallArgumentsDelta d)) ds)) = pendingTools s"
proof (induction ds arbitrary: s)
  case Nil
  then show ?case by simp
next
  case (Cons d ds)
  let ?s = "log (Debug_unknown ''response.function_call_arguments.delta'')
              (s\<lparr>fc_arguments := fc_arguments s @ or_default d []\<rparr>)"
  have "phase ?s = Active"
    using Cons.prems by (simp add: log_def)
  from Cons.IH [OF this] show ?case
    using Cons.prems by (simp add: delta_step log_def)
qed

lemma done_then_response_done:
  assumes "phase s = Active" and "toolName \<noteq> []" and "reference \<noteq> []"
  shows "dispatched (run e s [XaiData (FunctionCallArgumentsDone (Some reference) (Some toolName)),
                              XaiData ResponseDone]) =
           dispatched s @
             [(toolName,
               case JSON_parse e (if fc_arguments s = [] then ''{}'' else fc_arguments s) of
                 None \<Rightarrow> emptyArgs
               | Some a \<Rightarrow> a)]"
    and "length (pendingTools (run e s [XaiData (FunctionCallArgumentsDone (Some reference) (Some toolName)),
                              XaiData ResponseDone])) = Suc (length (pendingTools s))"
    and "phase (run e s [XaiData (FunctionCallArgumentsDone (Some reference) (Some toolName)),
                              XaiData ResponseDone]) = Active"
  using assms by (simp_all add: handlers truthy_def Let_def split: option.splits)

text \<open>
  Fragments that arrive one after the other are appended to the buffer in arrival order.
  When the call is then completed and the turn ends, the tool is dispatched with what
  \<open>JSON.parse\<close> makes of the concatenation (of \<open>{}\<close> if it is empty), and with the empty
  argument object if \<open>JSON.parse\<close> throws; the call stays active and one more tool call is
  pending. For the fragments \<open>{"a":1\<close> and \<open>}\<close> the buffer is \<open>{"a":1}\<close>.
\<close>

lemma fragments_concatenated_then_parsed:
  assumes "phase s = Active" and "toolName \<noteq> []" and "reference \<noteq> []"
  shows "fc_arguments (run e s (map (\<lambda>d. XaiData (FunctionCallArgumentsDelta d)) ds)) =
           fc_arguments s @ concat (map (\<lambda>d. or_default d []) ds) \<and>
         dispatched (run e s (map (\<lambda>d. XaiData (FunctionCallArgumentsDelta d)) ds @
             [XaiData (FunctionCallArgumentsDone (Some reference) (Some toolName)),
              XaiData ResponseDone])) =
           dispatched s @
             [(toolName,
               case JSON_parse e
                      (if fc_arguments s @ concat (map (\<lambda>d. or_default d []) ds) = [] then ''{}''
                       else fc_arguments s @ concat (map (\<lambda>d. or_default d []) ds)) of
                 None \<Rightarrow> emptyArgs
               | Some a \<Rightarrow> a)] \<and>
         length (pendingTools (run e s (map (\<lambda>d. XaiData (FunctionCallArgumentsDelta d)) ds @
             [XaiData (FunctionCallArgumentsDone (Some reference) (Some toolName)),
              XaiData ResponseDone]))) = Suc (length (pendingTools s)) \<and>
         phase (run e s (map (\<lambda>d. XaiData (FunctionCallArgumentsDelta d)) ds @
             [XaiData (FunctionCallArgumentsDone (Some reference) (Some toolName)),
              XaiData ResponseDone])) = Active"
proof -
  let ?S = "run e s (map (\<lambda>d. XaiData (FunctionCallArgumentsDelta d)) ds)"
  note acc = deltas_accumulate [OF assms(1), of e ds]
  then have active: "phase ?S = Active" by simp
  show ?thesis
    using acc done_then_response_done [OF active assms(2,3), of e]
    by (simp add: run_append)
qed

lemma fragments_concatenated_then_parsed_example:
  \<open>phase (run demo_env demo_call [TwilioStart ''MZ1'', XaiOpen]) = Active \<and>
   fc_arguments (run demo_env (run demo_env demo_call [TwilioStart ''MZ1'', XaiOpen])
      (map (\<lambda>d. XaiData (FunctionCallArgumentsDelta d)) [Some ''{"a":1'', Some ''}''])) = ''{"a":1}'' \<and>
   dispatched (run demo_env (run demo_env demo_call [TwilioStart ''MZ1'', XaiOpen])
      (map (\<lambda>d. XaiData (FunctionCallArgumentsDelta d)) [Some ''{"a":1'', Some ''}''] @
         [XaiData (FunctionCallArgumentsDone (Some ''fc_1'') (Some ''get_trending_news'')),
          XaiData ResponseDone])) =
     [(''get_trending_news'', emptyArgs\<lparr>others := [(''a'', JNum 1)]\<rparr>)] \<and>
   dispatched (run demo_env (run demo_env demo_call [TwilioStart ''MZ1'', XaiOpen])
      (map (\<lambda>d. XaiData (FunctionCallArgumentsDelta d)) [Some ''{"a":1''] @
         [XaiData (FunctionCallArgumentsDone (Some ''fc_1'') (Some ''get_trending_news'')),
          XaiData ResponseDone])) =
     [(''get_trending_news'', emptyArgs)]\<close>
  using
    fragments_concatenated_then_parsed [of "run demo_env demo_call [TwilioStart ''MZ1'', XaiOpen]"
      "''get_trending_news''" "''fc_1''" demo_env \<open>[Some ''{"a":1'', Some ''}'']\<close>]
    fragments_concatenated_then_parsed [of "run demo_env demo_call [TwilioStart ''MZ1'', XaiOpen]"
      "''get_trending_news''" "''fc_1''" demo_env \<open>[Some ''{"a":1'']\<close>]
  by (simp add: demo_defs handlers or_default_def)

text \<open>
  The dispatch runs \<open>executeToolCall\<close> on those arguments: its result becomes the
  pending output and its provider calls are made.
\<close>

lemma deltas_frame:
  "phase s = Active \<Longrightarrow>
   activeCallContexts (run e s (map (\<lambda>d. XaiData (FunctionCallArgumentsDelta d)) ds)) =
     activeCallContexts s \<and>
   callId (run e s (map (\<lambda>d. XaiData (FunctionCallArgumentsDelta d)) ds)) = callId s \<and>
   providerCalls (run e s (map (\<lambda>d. XaiData (FunctionCallArgumentsDelta d)) ds)) = providerCalls s \<and>
   xaiSent (run e s (map (\<lambda>d. XaiData (FunctionCallArgumentsDelta d)) ds)) = xaiSent s"
proof (induction ds arbitrary: s)
  case Nil
  then show ?case by simp
next
  case (Cons d ds)
  let ?s = "log (Debug_unknown ''response.function_call_arguments.delta'')
              (s\<lparr>fc_arguments := fc_arguments s @ or_default d []\<rparr>)"
  have "phase ?s = Active"
    using Cons.prems by (simp add: log_def)
  from Cons.IH [OF this] show ?case
    using Cons.prems by (simp add: delta_step log_def)
qed

lemma done_then_response_done_executes:
  assumes "phase s = Active" and "toolName \<noteq> []" and "reference \<noteq> []"
  shows "pendingTools (run e s [XaiData (FunctionCallArgumentsDone (Some reference) (Some toolName)),
                              XaiData ResponseDone]) =
           pendingTools s @
             [fst (executeToolCall (api e) (activeCallContexts s) (callId s) toolName
                (case JSON_parse e (if fc_arguments s = [] then ''{}'' else fc_arguments s) of
                   None \<Rightarrow> emptyArgs | Some a \<Rightarrow> a))]"
    and "providerCalls (run e s [XaiData (FunctionCallArgumentsDone (Some reference) (Some toolName)),
                              XaiData ResponseDone]) =
           providerCalls s @
             snd (executeToolCall (api e) (activeCallContexts s) (callId s) toolName
                (case JSON_parse e (if fc_arguments s = [] then ''{}'' else fc_arguments s) of
                   None \<Rightarrow> emptyArgs | Some a \<Rightarrow> a))"
    and "fc_callId (run e s [XaiData (FunctionCallArgumentsDone (Some reference) (Some toolName)),
                              XaiData ResponseDone]) = Some reference"
    and "xaiSent (run e s [XaiData (FunctionCallArgumentsDone (Some reference) (Some toolName)),
                              XaiData ResponseDone]) = xaiSent s"
  using assms by (simp_all add: handlers truthy_def Let_def split: option.splits)

lemma fragments_then_tool_runs:
  assumes "phase s = Active" and "toolName \<noteq> []" and "reference \<noteq> []"
  shows "pendingTools (run e s (map (\<lambda>d. XaiData (FunctionCallArgumentsDelta d)) ds @
             [XaiData (FunctionCallArgumentsDone (Some reference) (Some toolName)),
              XaiData ResponseDone])) =
           pendingTools s @
             [fst (executeToolCall (api e) (activeCallContexts s) (callId s) toolName
                (case JSON_parse e
                        (if fc_arguments s @ concat (map (\<lambda>d. or_default d []) ds) = [] then ''{}''
                         else fc_arguments s @ concat (map (\<lambda>d. or_default d []) ds)) of
                   None \<Rightarrow> emptyArgs | Some a \<Rightarrow> a))] \<and>
         providerCalls (run e s (map (\<lambda>d. XaiData (FunctionCallArgumentsDelta d)) ds @
             [XaiData (FunctionCallArgumentsDone (Some reference) (Some toolName)),
              XaiData ResponseDone])) =
           providerCalls s @
             snd (executeToolCall (api e) (activeCallContexts s) (callId s) toolName
                (case JSON_parse e
                        (if fc_arguments s @ concat (map (\<lambda>d. or_default d []) ds) = [] then ''{}''
                         else fc_arguments s @ concat (map (\<lambda>d. or_default d []) ds)) of
                   None \<Rightarrow> emptyArgs | Some a \<Rightarrow> a))"
proof -
  let ?S = "run e s (map (\<lambda>d. XaiData (FunctionCallArgumentsDelta d)) ds)"
  note acc = deltas_accumulate [OF assms(1), of e ds]
  note frame = deltas_frame [OF assms(1), of e ds]
  from acc have active: "phase ?S = Active" by simp
  show ?thesis
    using acc frame done_then_response_done_executes(1,2) [OF active assms(2,3), of e]
    by (simp add: run_append)
qed

text \<open>
  C6 on two runs. The buffer of fragments is cleared by the callback that answers a tool
  call, when the promise of that call settles. If the fragments of a second call arrive
  while the tool of the first call runs, and the first call settles between the fragments
  \<open>{"a":1\<close> and \<open>}\<close>, the first fragment is lost: \<open>}\<close> alone is parsed, the parse
  throws, and the second tool is run with the empty argument object. When the first call
  settles before the fragments, the second tool is run with \<open>{"a":1}\<close>.
\<close>

theorem fragments_lost_at_settlement:
  \<open>fc_arguments (run demo_env demo_call
      [TwilioStart ''MZ1'', XaiOpen,
       XaiData (FunctionCallArgumentsDone (Some ''fc_1'') (Some ''get_trending_news'')),
       XaiData ResponseDone,
       XaiData SpeechStarted, XaiData SpeechStopped, XaiData ResponseCreated,
       XaiData (FunctionCallArgumentsDelta (Some ''{"a":1'')),
       ToolSettled 0,
       XaiData (FunctionCallArgumentsDelta (Some ''}'')),
       XaiData (FunctionCallArgumentsDone (Some ''fc_2'') (Some ''search_news_topic''))]) = ''}'' \<and>
   dispatched (run demo_env demo_call
      [TwilioStart ''MZ1'', XaiOpen,
       XaiData (FunctionCallArgumentsDone (Some ''fc_1'') (Some ''get_trending_news'')),
       XaiData ResponseDone,
       XaiData SpeechStarted, XaiData SpeechStopped, XaiData ResponseCreated,
       XaiData (FunctionCallArgumentsDelta (Some ''{"a":1'')),
       ToolSettled 0,
       XaiData (FunctionCallArgumentsDelta (Some ''}'')),
       XaiData (FunctionCallArgumentsDone (Some ''fc_2'') (Some ''search_news_topic'')),
       XaiData ResponseDone]) =
     [(''get_trending_news'', emptyArgs), (''search_news_topic'', emptyArgs)] \<and>
   providerCalls (run demo_env demo_call
      [TwilioStart ''MZ1'', XaiOpen,
       XaiData (FunctionCallArgumentsDone (Some ''fc_1'') (Some ''get_trending_news'')),
       XaiData ResponseDone,
       XaiData SpeechStarted, XaiData SpeechStopped, XaiData ResponseCreated,
       XaiData (FunctionCallArgumentsDelta (Some ''{"a":1'')),
       ToolSettled 0,
       XaiData (FunctionCallArgumentsDelta (Some ''}'')),
       XaiData (FunctionCallArgumentsDone (Some ''fc_2'') (Some ''search_news_topic'')),
       XaiData ResponseDone]) =
     [Call_getTrendingNews ''US'', Call_searchNewsTopic None] \<and>
   Error_failed_to_parse_args ''}'' \<in> set (logs (run demo_env demo_call
      [TwilioStart ''MZ1'', XaiOpen,
       XaiData (FunctionCallArgumentsDone (Some ''fc_1'') (Some ''get_trending_news'')),
       XaiData ResponseDone,
       XaiData SpeechStarted, XaiData SpeechStopped, XaiData ResponseCreated,
       XaiData (FunctionCallArgumentsDelta (Some ''{"a":1'')),
       ToolSettled 0,
       XaiData (FunctionCallArgumentsDelta (Some ''}'')),
       XaiData (FunctionCallArgumentsDone (Some ''fc_2'') (Some ''search_news_topic'')),
       XaiData ResponseDone])) \<and>
   dispatched (run demo_env demo_call
      [TwilioStart ''MZ1'', XaiOpen,
       XaiData (FunctionCallArgumentsDone (Some ''fc_1'') (Some ''get_trending_news'')),
       XaiData ResponseDone,
       XaiData SpeechStarted, XaiData SpeechStopped, XaiData ResponseCreated,
       ToolSettled 0,
       XaiData (FunctionCallArgumentsDelta (Some ''{"a":1'')),
       XaiData (FunctionCallArgumentsDelta (Some ''}'')),
       XaiData (FunctionCallArgumentsDone (Some ''fc_2'') (Some ''search_news_topic'')),
       XaiData ResponseDone]) =
     [(''get_trending_news'', emptyArgs),
      (''search_news_topic'', emptyArgs\<lparr>others := [(''a'', JNum 1)]\<rparr>)]\<close>
  by (simp add: demo_defs handlers executeToolCall_def getCallContext_def or_default_def
      emptyArgs_def)

subsection \<open>Teardown\<close>




subsection \<open>Answering a tool call\<close>

lemma provider_failure_payload:
  "postTweet a tok t = Threw err \<Longrightarrow> getCallContext ctxs cid = Some c \<Longrightarrow>
   authenticated (auth c) \<Longrightarrow> access_token (auth c) = Some tok \<Longrightarrow> tok \<noteq> [] \<Longrightarrow>
   length t \<le> 280 \<Longrightarrow>
   fst (executeToolCall a ctxs cid ''post_tweet'' (args\<lparr>text_arg := Some t\<rparr>)) =
     JSON_stringify (JObj [(''success'', JBool False),
       (''error'', JStr (''Tool execution failed: '' @ error_text err))])"
  by (simp add: executeToolCall_def handlePostTweet_def linked_def)

lemma settled_at_once:
  assumes "phase s = Active" and "fc_name s = Some toolName" and "toolName \<noteq> []"
    and "fc_callId s = Some reference" and "reference \<noteq> []" and "pendingTools s = []"
  shows "xaiSent (run e s [XaiData ResponseDone, ToolSettled 0]) =
           xaiSent s @
             [FunctionCallOutput (Some reference)
                (fst (executeToolCall (api e) (activeCallContexts s) (callId s) toolName
                   (case JSON_parse e (if fc_arguments s = [] then ''{}'' else fc_arguments s) of
                      None \<Rightarrow> emptyArgs | Some a \<Rightarrow> a))),
              ResponseCreate]"
    and "fc_name (run e s [XaiData ResponseDone, ToolSettled 0]) = None"
    and "fc_callId (run e s [XaiData ResponseDone, ToolSettled 0]) = None"
    and "fc_arguments (run e s [XaiData ResponseDone, ToolSettled 0]) = []"
    and "pendingTools (run e s [XaiData ResponseDone, ToolSettled 0]) = []"
  using assms by (simp_all add: handlers truthy_def Let_def split: option.splits)

text \<open>
  C5 on two runs. The callback that answers a tool call reads \<open>functionCallState.callId\<close>
  when the promise settles, and the state is cleared only then. If the caller speaks while
  the tool runs and a second turn ends, the tool is dispatched a second time and the second
  output carries no call reference; if the second turn announces another tool call, the
  output of the first call is sent under the reference of the second.
\<close>

theorem tool_output_reference_read_late:
  "xaiSent (run demo_env demo_call
      [TwilioStart ''MZ1'', XaiOpen,
       XaiData (FunctionCallArgumentsDone (Some ''fc_1'') (Some ''get_trending_news'')),
       XaiData ResponseDone,
       XaiData SpeechStarted, XaiData SpeechStopped, XaiData ResponseCreated, XaiData ResponseDone,
       ToolSettled 0, ToolSettled 0]) =
     [FunctionCallOutput (Some ''fc_1'') ''trends'', ResponseCreate,
      FunctionCallOutput None ''trends'', ResponseCreate] \<and>
   dispatched (run demo_env demo_call
      [TwilioStart ''MZ1'', XaiOpen,
       XaiData (FunctionCallArgumentsDone (Some ''fc_1'') (Some ''get_trending_news'')),
       XaiData ResponseDone,
       XaiData SpeechStarted, XaiData SpeechStopped, XaiData ResponseCreated, XaiData ResponseDone,
       ToolSettled 0, ToolSettled 0]) =
     [(''get_trending_news'', emptyArgs), (''get_trending_news'', emptyArgs)] \<and>
   xaiSent (run demo_env demo_call
      [TwilioStart ''MZ1'', XaiOpen,
       XaiData (FunctionCallArgumentsDone (Some ''fc_1'') (Some ''get_trending_news'')),
       XaiData ResponseDone,
       XaiData SpeechStarted, XaiData SpeechStopped, XaiData ResponseCreated,
       XaiData (FunctionCallArgumentsDone (Some ''fc_2'') (Some ''search_news_topic'')),
       ToolSettled 0, XaiData ResponseDone]) =
     [FunctionCallOutput (Some ''fc_2'') ''trends'', ResponseCreate] \<and>
   dispatched (run demo_env demo_call
      [TwilioStart ''MZ1'', XaiOpen,
       XaiData (FunctionCallArgumentsDone (Some ''fc_1'') (Some ''get_trending_news'')),
       XaiData ResponseDone,
       XaiData SpeechStarted, XaiData SpeechStopped, XaiData ResponseCreated,
       XaiData (FunctionCallArgumentsDone (Some ''fc_2'') (Some ''search_news_topic'')),
       ToolSettled 0, XaiData ResponseDone]) =
     [(''get_trending_news'', emptyArgs)]"
  by (simp add: demo_defs handlers executeToolCall_def getCallContext_def or_default_def)

end
